theory Spec2Isabelle
  imports Main "HOL-Library.Word" "HOL-Library.Monad_Syntax"
begin

unbundle bit_operations_syntax

section \<open>Data model of vlong (vlong.h, VLONG\_32BIT configuration)\<close>

text \<open>
  The reference configuration is \<^verbatim>\<open>VLONG_32BIT\<close>: a digit (\<^verbatim>\<open>udig_t\<close>, \<^verbatim>\<open>sdig_t\<close>) has
  32 bits and the accumulator word (\<^verbatim>\<open>uwrd_t\<close>, \<^verbatim>\<open>swrd_t\<close>) has 64 bits. A signed
  digit is kept as a 32-bit word and read through \<open>sint\<close>. Sizes and indices
  (\<^verbatim>\<open>size_t\<close>, \<^verbatim>\<open>int\<close> loop counters) are natural numbers; they are bounded by
  \<^verbatim>\<open>VLONG_MAX_DIGITS\<close> in every path modelled here.
\<close>

type_synonym udig_t = "32 word"
type_synonym sdig_t = "32 word"
type_synonym uwrd_t = "64 word"

definition CiD :: nat where "CiD = 4"
definition BiD :: nat where "BiD = 32"
definition VLONG_MAX_DIGITS :: nat where "VLONG_MAX_DIGITS = 1024"
definition VLONG_KARATSUBA_MUL_CUTOFF :: nat where "VLONG_KARATSUBA_MUL_CUTOFF = 80"

definition MP_GT :: int where "MP_GT = 1"
definition MP_LT :: int where "MP_LT = - 1"
definition MP_EQ :: int where "MP_EQ = 0"

definition MP_NEG :: int where "MP_NEG = - 1"
definition MP_ZPOS :: int where "MP_ZPOS = 1"

definition MP_MASK_DIG :: udig_t where "MP_MASK_DIG = NOT 0"

datatype status =
    VLONG_SUCCESS
  | VLONG_ERR_MEMORY_EXEED
  | VLONG_ERR_MEMORY_ALLOC
  | VLONG_ERR_MEMORY_FREE
  | VLONG_ERR_BUFFER_SMALL
  | VLONG_ERR_INVALID_CHAR
  | VLONG_ERR_BAD_ARG_1
  | VLONG_ERR_BAD_ARG_2
  | VLONG_ERR_BAD_ARG_3
  | VLONG_ERR_BAD_ARG_4
  | VLONG_ERR_OUT_OF_RANGE
  | VLONG_ERR_DIV_BY_ZERO
  | VLONG_ERR_NEGATIVE_ARG
  | VLONG_ERR_NO_INVERSE
  | VLONG_ERR_UNEXPECTED
  | VLONG_ERR_NOT_IMPLEMENTED
  | VLONG_WRN_INSECURE_RNG

text \<open>The numeric value of a status code (the \<^verbatim>\<open>#define\<close>s of vlong.h).\<close>

fun status_code :: "status \<Rightarrow> int" where
  "status_code VLONG_SUCCESS = 0"
| "status_code VLONG_ERR_MEMORY_EXEED = 10"
| "status_code VLONG_ERR_MEMORY_ALLOC = 11"
| "status_code VLONG_ERR_MEMORY_FREE = 12"
| "status_code VLONG_ERR_BUFFER_SMALL = 13"
| "status_code VLONG_ERR_INVALID_CHAR = 14"
| "status_code VLONG_ERR_BAD_ARG_1 = 21"
| "status_code VLONG_ERR_BAD_ARG_2 = 22"
| "status_code VLONG_ERR_BAD_ARG_3 = 23"
| "status_code VLONG_ERR_BAD_ARG_4 = 24"
| "status_code VLONG_ERR_OUT_OF_RANGE = 25"
| "status_code VLONG_ERR_DIV_BY_ZERO = 26"
| "status_code VLONG_ERR_NEGATIVE_ARG = 27"
| "status_code VLONG_ERR_NO_INVERSE = 28"
| "status_code VLONG_ERR_UNEXPECTED = 100"
| "status_code VLONG_ERR_NOT_IMPLEMENTED = 101"
| "status_code VLONG_WRN_INSECURE_RNG = 200"

text \<open>
  The object: sign \<open>s\<close> (a \<^verbatim>\<open>char\<close> holding 1 or -1), the digit buffer \<open>d\<close>
  (little-endian limbs; the list is the allocated buffer, \<^verbatim>\<open>NULL\<close> is the empty
  list), the number \<open>na\<close> of allocated digits and the number \<open>nu\<close> of used digits.
\<close>

record vlong =
  s :: int
  d :: "udig_t list"
  na :: nat
  nu :: nat

text \<open>
  Reading a digit. Inside the allocated buffer this is the stored limb. An index outside
  the buffer is undefined behaviour in the source; the model reads 0 there, and a write
  outside the buffer (\<open>xs[i := v]\<close>) changes nothing. No theorem below is stated on an
  input that takes such a path.
\<close>

definition dg :: "udig_t list \<Rightarrow> nat \<Rightarrow> udig_t" where
  "dg xs i = (if i < length xs then xs ! i else 0)"

text \<open>\<^verbatim>\<open>memset(p + from, 0, cnt * sizeof(udig_t))\<close> on the digit buffer.\<close>

definition zero_range :: "udig_t list \<Rightarrow> nat \<Rightarrow> nat \<Rightarrow> udig_t list" where
  "zero_range xs from cnt =
     take from xs @ replicate (min cnt (length xs - from)) 0 @ drop (from + cnt) xs"

text \<open>\<^verbatim>\<open>memcpy(dst, src, cnt * sizeof(udig_t))\<close> between digit buffers.\<close>

definition copy_digits :: "udig_t list \<Rightarrow> udig_t list \<Rightarrow> nat \<Rightarrow> udig_t list" where
  "copy_digits dst src cnt =
     map (\<lambda>i. if i < cnt then dg src i else dst ! i) [0..<length dst]"

text \<open>A well-allocated object: the buffer has \<open>na\<close> digits and \<open>nu\<close> is within it.\<close>

definition alloc_ok :: "vlong \<Rightarrow> bool" where
  "alloc_ok v \<longleftrightarrow> length (d v) = na v \<and> nu v \<le> na v"

text \<open>The integer a vlong stands for.\<close>

fun mag :: "udig_t list \<Rightarrow> nat" where
  "mag [] = 0"
| "mag (x # xs) = unat x + 2 ^ 32 * mag xs"

definition val :: "vlong \<Rightarrow> int" where
  "val v = (if s v < 0 then - int (mag (take (nu v) (d v))) else int (mag (take (nu v) (d v))))"

section \<open>Memory management\<close>

definition Init :: vlong where
  "Init = \<lparr> s = MP_ZPOS, d = [], na = 0, nu = 0 \<rparr>"

text \<open>
  \<^verbatim>\<open>Grow(n)\<close>. Heap exhaustion (\<^verbatim>\<open>VLONG_ERR_MEMORY_ALLOC\<close>) is not modelled: the
  allocator always succeeds.
\<close>

definition Grow :: "vlong \<Rightarrow> nat \<Rightarrow> status \<times> vlong" where
  "Grow v n =
     (if na v \<ge> n then
        (VLONG_SUCCESS, if nu v < na v then v\<lparr> d := zero_range (d v) (nu v) (na v - nu v) \<rparr> else v)
      else if n > VLONG_MAX_DIGITS then (VLONG_ERR_MEMORY_EXEED, v)
      else (VLONG_SUCCESS, v\<lparr> d := take (nu v) (d v) @ replicate (n - nu v) 0, na := n \<rparr>))"

text \<open>\<^verbatim>\<open>Clamp()\<close>: the loop drops zero top digits, then a zero value gets sign +.\<close>

fun clamp_nu :: "udig_t list \<Rightarrow> nat \<Rightarrow> nat" where
  "clamp_nu xs 0 = 0"
| "clamp_nu xs (Suc i) = (if dg xs i = 0 then clamp_nu xs i else Suc i)"

definition Clamp :: "vlong \<Rightarrow> vlong" where
  "Clamp v = (let n = clamp_nu (d v) (nu v) in
     if n = 0 then v\<lparr> nu := n, s := MP_ZPOS \<rparr> else v\<lparr> nu := n \<rparr>)"

definition SetZero :: "vlong \<Rightarrow> vlong" where
  "SetZero v = (if nu v > 0 then v\<lparr> d := zero_range (d v) 0 (nu v), nu := 0, s := 1 \<rparr>
                else v\<lparr> nu := 0, s := 1 \<rparr>)"

definition isZero :: "vlong \<Rightarrow> bool" where
  "isZero v \<longleftrightarrow> nu v = 0"

text \<open>\<^verbatim>\<open>SetValue(sdig_t v)\<close>.\<close>

definition SetValue :: "vlong \<Rightarrow> sdig_t \<Rightarrow> status \<times> vlong" where
  "SetValue this v =
     (if v = 0 then
        (let t = SetZero this in
         (VLONG_SUCCESS, if na t > 0 then t\<lparr> d := zero_range (d t) 0 (na t) \<rparr> else t))
      else
        let (r, t) = (if na this > 1
                      then (VLONG_SUCCESS, this\<lparr> d := zero_range (d this) 0 (na this) \<rparr>)
                      else Grow this 1) in
        if r \<noteq> VLONG_SUCCESS then (r, t)
        else (VLONG_SUCCESS,
              if 0 <s v then t\<lparr> nu := 1, s := MP_ZPOS, d := (d t)[0 := v] \<rparr>
              else t\<lparr> nu := 1, s := MP_NEG, d := (d t)[0 := - v] \<rparr>))"

text \<open>\<^verbatim>\<open>Copy(const vlong &v)\<close>, which is also \<^verbatim>\<open>SetValue(const vlong &v)\<close>.\<close>

definition Copy :: "vlong \<Rightarrow> vlong \<Rightarrow> status \<times> vlong" where
  "Copy this v =
     (let (r, t) = (if na this < nu v then Grow this (nu v) else (VLONG_SUCCESS, this)) in
      if r \<noteq> VLONG_SUCCESS then (r, t)
      else (VLONG_SUCCESS, t\<lparr> s := s v, nu := nu v, d := copy_digits (d t) (d v) (nu v) \<rparr>))"

section \<open>Comparisons\<close>

text \<open>
  \<^verbatim>\<open>Compare(sdig_t x)\<close>. \<^verbatim>\<open>(swrd_t)d[0]\<close> is the unsigned digit as a 64-bit value,
  \<^verbatim>\<open>x\<close> and \<^verbatim>\<open>-x\<close> are 32-bit signed values widened to 64 bits.
\<close>

definition Compare :: "vlong \<Rightarrow> sdig_t \<Rightarrow> int" where
  "Compare this x =
     (if isZero this then
        (if x = 0 then MP_EQ else if 0 <s x then MP_GT else MP_LT)
      else if s this = MP_NEG \<and> 0 \<le>s x then MP_LT
      else if s this = MP_ZPOS \<and> x \<le>s 0 then MP_LT
      else if nu this > 1 then (if s this = MP_NEG then MP_LT else MP_GT)
      else if 0 <s x then
        (if uint (dg (d this) 0) > sint x then MP_GT
         else if uint (dg (d this) 0) < sint x then MP_LT
         else MP_EQ)
      else
        (if uint (dg (d this) 0) > sint (- x) then MP_LT
         else if uint (dg (d this) 0) < sint (- x) then MP_GT
         else MP_EQ))"

text \<open>The scalar comparison operators of vlong.h.\<close>

definition op_gt :: "vlong \<Rightarrow> sdig_t \<Rightarrow> bool" where "op_gt this x \<longleftrightarrow> Compare this x > 0"
definition op_ge :: "vlong \<Rightarrow> sdig_t \<Rightarrow> bool" where "op_ge this x \<longleftrightarrow> Compare this x \<ge> 0"
definition op_lt :: "vlong \<Rightarrow> sdig_t \<Rightarrow> bool" where "op_lt this x \<longleftrightarrow> Compare this x < 0"
definition op_le :: "vlong \<Rightarrow> sdig_t \<Rightarrow> bool" where "op_le this x \<longleftrightarrow> Compare this x \<le> 0"
definition op_eq :: "vlong \<Rightarrow> sdig_t \<Rightarrow> bool" where "op_eq this x \<longleftrightarrow> Compare this x = 0"
definition op_ne :: "vlong \<Rightarrow> sdig_t \<Rightarrow> bool" where "op_ne this x \<longleftrightarrow> Compare this x \<noteq> 0"

text \<open>
  An operand of a method is either the receiver itself (\<^verbatim>\<open>&a == this\<close>) or another
  object. The source tests this identity to decide whether to stage through a temporary;
  an aliased operand is always read from the current state of the receiver.
\<close>

datatype operand = This | Obj vlong

definition arg :: "vlong \<Rightarrow> operand \<Rightarrow> vlong" where
  "arg this a = (case a of This \<Rightarrow> this | Obj v \<Rightarrow> v)"

text \<open>\<^verbatim>\<open>prvMovePtr\<close>: takes the buffer of a temporary, not its sign.\<close>

definition prvMovePtr :: "vlong \<Rightarrow> vlong \<Rightarrow> vlong" where
  "prvMovePtr this v = this\<lparr> d := d v, na := na v, nu := nu v \<rparr>"

text \<open>\<^verbatim>\<open>CompareMag\<close>: by number of used digits, then from the top digit down.\<close>

fun cmp_digits :: "udig_t list \<Rightarrow> udig_t list \<Rightarrow> nat \<Rightarrow> int" where
  "cmp_digits xs ys 0 = MP_EQ"
| "cmp_digits xs ys (Suc i) =
     (if dg xs i > dg ys i then MP_GT
      else if dg xs i < dg ys i then MP_LT
      else cmp_digits xs ys i)"

definition CompareMag :: "vlong \<Rightarrow> vlong \<Rightarrow> int" where
  "CompareMag a b =
     (if nu a > nu b then MP_GT
      else if nu a < nu b then MP_LT
      else cmp_digits (d a) (d b) (nu a))"

text \<open>\<^verbatim>\<open>Compare(const vlong &v)\<close>.\<close>

definition CompareV :: "vlong \<Rightarrow> vlong \<Rightarrow> int" where
  "CompareV this v =
     (if nu this = 0 \<and> nu v = 0 then MP_EQ
      else if s this \<noteq> s v then (if s this < 0 then MP_LT else MP_GT)
      else if s this < 0 then CompareMag v this
      else CompareMag this v)"

section \<open>Bitwise operations\<close>

text \<open>The loop \<^verbatim>\<open>while (dig != 0) { dig >>= 1; bits++; }\<close>.\<close>

function count_bits_loop :: "udig_t \<Rightarrow> nat \<Rightarrow> nat" where
  "count_bits_loop dig bits =
     (if dig \<noteq> 0 then count_bits_loop (drop_bit 1 dig) (bits + 1) else bits)"
  by pat_completeness auto
termination
proof (relation "measure (\<lambda>(dig, bits). unat dig)")
  show "wf (measure (\<lambda>(dig :: udig_t, bits :: nat). unat dig))" by simp
next
  fix dig :: udig_t and bits :: nat
  assume "dig \<noteq> 0"
  then have "unat dig \<noteq> 0" by (simp add: unat_eq_0)
  then have "unat dig div 2 < unat dig" by simp
  then show "((drop_bit 1 dig, bits + 1), (dig, bits)) \<in> measure (\<lambda>(dig, bits). unat dig)"
    by (simp add: drop_bit_eq_div unat_div)
qed

definition GetNumBits :: "vlong \<Rightarrow> nat" where
  "GetNumBits this =
     (if isZero this then 0
      else count_bits_loop (dg (d this) (nu this - 1))
             (if nu this > 1 then BiD * (nu this - 1) else 0))"

definition GetNumMSB :: "vlong \<Rightarrow> nat" where
  "GetNumMSB this = GetNumBits this"

text \<open>
  \<^verbatim>\<open>prvLeftShiftDigits\<close>: the two loops move the used digits up by \<open>digs\<close> places
  (from the top down, so no digit is read after it was overwritten) and zero the low ones.
\<close>

definition prvLeftShiftDigits :: "vlong \<Rightarrow> nat \<Rightarrow> status \<times> vlong" where
  "prvLeftShiftDigits this digs =
     (if digs = 0 then (VLONG_SUCCESS, this)
      else
        let (r, t) = (if na this < nu this + digs then Grow this (nu this + digs)
                      else (VLONG_SUCCESS, this)) in
        if r \<noteq> VLONG_SUCCESS then (r, t)
        else (VLONG_SUCCESS,
              t\<lparr> d := map (\<lambda>i. if i < digs then 0
                               else if i < nu t + digs then dg (d t) (i - digs)
                               else dg (d t) i) [0..<length (d t)],
                 nu := nu t + digs \<rparr>))"

definition prvRightShiftDigits :: "vlong \<Rightarrow> nat \<Rightarrow> vlong" where
  "prvRightShiftDigits this digs =
     (if digs = 0 then this
      else if digs \<ge> nu this then SetZero this
      else this\<lparr> d := map (\<lambda>i. if i < nu this - digs then dg (d this) (i + digs)
                                else if i < nu this then 0
                                else dg (d this) i) [0..<length (d this)],
                  nu := nu this - digs \<rparr>)"

text \<open>The bit loop of \<^verbatim>\<open>ShiftRight\<close>, from digit \<open>i - 1\<close> down to digit 0.\<close>

fun shr_loop :: "udig_t list \<Rightarrow> nat \<Rightarrow> nat \<Rightarrow> udig_t \<Rightarrow> udig_t list" where
  "shr_loop xs b2 0 tmp1 = xs"
| "shr_loop xs b2 (Suc i) tmp1 =
     (let mask = push_bit b2 (1 :: udig_t) - 1;
          tmp2 = dg xs i AND mask
      in shr_loop (xs[i := drop_bit b2 (dg xs i) OR push_bit (BiD - b2) tmp1]) b2 i tmp2)"

text \<open>The bit loop of \<^verbatim>\<open>ShiftLeft\<close>, over the digits \<open>is\<close>, with carry \<open>u\<close>.\<close>

fun shl_loop :: "udig_t list \<Rightarrow> nat \<Rightarrow> nat list \<Rightarrow> udig_t \<Rightarrow> udig_t list \<times> udig_t" where
  "shl_loop xs b2 [] u = (xs, u)"
| "shl_loop xs b2 (i # is) u =
     (let sum = push_bit b2 (ucast (dg xs i) :: uwrd_t) + ucast u
      in shl_loop (xs[i := ucast (sum AND ucast MP_MASK_DIG)]) b2 is (ucast (drop_bit BiD sum)))"

text \<open>
  \<^verbatim>\<open>ShiftRight\<close> and \<^verbatim>\<open>ShiftLeft\<close> for a count that is not negative. The source's
  methods take an \<^verbatim>\<open>int\<close> and hand a negative count to the other direction.
\<close>

definition ShiftRight_nn :: "vlong \<Rightarrow> operand \<Rightarrow> nat \<Rightarrow> status \<times> vlong" where
  "ShiftRight_nn this a bits =
     (let t0 = (if a \<noteq> This then snd (Copy this (arg this a)) else this) in
      if nu t0 \<le> bits div BiD then (VLONG_SUCCESS, SetZero t0)
      else
        let (r1, t1) = (if na t0 < nu t0 - bits div BiD then Grow t0 (nu t0 - bits div BiD)
                        else (VLONG_SUCCESS, t0)) in
        if r1 \<noteq> VLONG_SUCCESS then (r1, t1)
        else
          let t2 = (if bits \<ge> BiD then prvRightShiftDigits t1 (bits div BiD) else t1) in
          if nu t2 = 0 then (VLONG_SUCCESS, t2)
          else
            let b2 = bits mod BiD;
                t3 = (if b2 > 0 then t2\<lparr> d := shr_loop (d t2) b2 (nu t2) 0 \<rparr> else t2);
                t4 = (if dg (d t3) (nu t3 - 1) = 0 then t3\<lparr> nu := nu t3 - 1 \<rparr> else t3)
            in (VLONG_SUCCESS, if nu t4 = 0 then t4\<lparr> s := MP_ZPOS \<rparr> else t4))"

definition ShiftLeft_nn :: "vlong \<Rightarrow> operand \<Rightarrow> nat \<Rightarrow> status \<times> vlong" where
  "ShiftLeft_nn this a bits =
     (let (r0, t0) = (if a \<noteq> This then Copy this (arg this a) else (VLONG_SUCCESS, this)) in
      if r0 \<noteq> VLONG_SUCCESS then (r0, t0)
      else
        let (r1, t1) = (if na t0 < nu t0 + bits div BiD + 1 then Grow t0 (nu t0 + bits div BiD + 1)
                        else (VLONG_SUCCESS, t0)) in
        if r1 \<noteq> VLONG_SUCCESS then (r1, t1)
        else
          let (r2, t2) = (if bits \<ge> BiD then prvLeftShiftDigits t1 (bits div BiD)
                          else (VLONG_SUCCESS, t1)) in
          if r2 \<noteq> VLONG_SUCCESS then (r2, t2)
          else
            let b2 = bits mod BiD in
            if b2 > 0 then
              (let (xs, u) = shl_loop (d t2) b2 [0..<nu t2] 0 in
               if u > 0 then (VLONG_SUCCESS, t2\<lparr> d := xs[nu t2 := u], nu := nu t2 + 1 \<rparr>)
               else (VLONG_SUCCESS, t2\<lparr> d := xs \<rparr>))
            else (VLONG_SUCCESS, t2))"

definition ShiftRight :: "vlong \<Rightarrow> operand \<Rightarrow> int \<Rightarrow> status \<times> vlong" where
  "ShiftRight this a bits =
     (if bits < 0 then ShiftLeft_nn this a (nat (- bits)) else ShiftRight_nn this a (nat bits))"

definition ShiftLeft :: "vlong \<Rightarrow> operand \<Rightarrow> int \<Rightarrow> status \<times> vlong" where
  "ShiftLeft this a bits =
     (if bits < 0 then ShiftRight_nn this a (nat (- bits)) else ShiftLeft_nn this a (nat bits))"

text \<open>\<^verbatim>\<open>SetBit(num, bit)\<close>; \<open>bit\<close> is a \<^verbatim>\<open>char\<close>.\<close>

definition SetBit :: "vlong \<Rightarrow> nat \<Rightarrow> 8 word \<Rightarrow> status \<times> vlong" where
  "SetBit this num bit0 =
     (let dig = num div BiD;
          pos = num mod BiD;
          bit = bit0 AND 1;
          store = (\<lambda>t. let v = push_bit pos (ucast bit :: udig_t)
                       in t\<lparr> d := (d t)[dig := (dg (d t) dig AND NOT v) OR v] \<rparr>)
      in
      if dig \<ge> nu this then
        (if bit > 0 then
           (let (r, t) = Grow this (dig + 1) in
            if r \<noteq> VLONG_SUCCESS then (r, t)
            else (VLONG_SUCCESS, store (t\<lparr> nu := dig + 1 \<rparr>)))
         else (VLONG_SUCCESS, this))
      else (VLONG_SUCCESS, store this))"

text \<open>
  \<^verbatim>\<open>GetBit(num)\<close> returns a \<^verbatim>\<open>char\<close>: the bit, or the value of
  \<^verbatim>\<open>VLONG_ERR_OUT_OF_RANGE\<close> when the digit index is not below \<open>nu\<close>.
\<close>

definition GetBit :: "vlong \<Rightarrow> nat \<Rightarrow> int" where
  "GetBit this num =
     (let dig = num div BiD;
          pos = num mod BiD;
          v = (1 :: udig_t)
      in if dig \<ge> nu this then status_code VLONG_ERR_OUT_OF_RANGE
         else uint (drop_bit pos (dg (d this) dig AND push_bit pos v)))"

text \<open>
  \<^verbatim>\<open>Xor(a, b)\<close> compares the addresses of its operands with each other and with the
  receiver, so it is modelled over a store of objects: \<open>this\<close>, \<open>a\<close> and \<open>b\<close> are
  addresses.
\<close>

type_synonym store = "nat \<Rightarrow> vlong"

definition Xor :: "store \<Rightarrow> nat \<Rightarrow> nat \<Rightarrow> nat \<Rightarrow> status \<times> store" where
  "Xor st this a b =
     (let nmin = (if nu (st a) < nu (st b) then nu (st a) else nu (st b)) in
      if a = b then (VLONG_SUCCESS, st(this := SetZero (st this)))
      else
        let t1 = (if nu (st a) > nu (st b) then a else b);
            t2 = (if nu (st a) > nu (st b) then b else a);
            (r, st1) = (if t1 \<noteq> this \<and> t2 \<noteq> this
                        then (let (r, v) = Copy (st this) (st t1) in (r, st(this := v)))
                        else (VLONG_SUCCESS, st))
        in if r \<noteq> VLONG_SUCCESS then (r, st1)
           else (VLONG_SUCCESS,
                 fold (\<lambda>i st'. st'(this := (st' this)\<lparr> d := (d (st' this))
                          [i := dg (d (st' t1)) i XOR dg (d (st' t2)) i] \<rparr>)) [0..<nmin] st1))"

text \<open>
  The clamp invariant of the data model: no used digits and sign +, or a nonzero top
  used digit.
\<close>

definition clamped :: "vlong \<Rightarrow> bool" where
  "clamped v \<longleftrightarrow> (if nu v = 0 then s v = MP_ZPOS else dg (d v) (nu v - 1) \<noteq> 0)"

section \<open>Bytewise operations\<close>

definition CHARS_TO_DIGITS :: "nat \<Rightarrow> nat" where
  "CHARS_TO_DIGITS i = (i + CiD - 1) div CiD"

definition BITS_TO_DIGITS :: "nat \<Rightarrow> nat" where
  "BITS_TO_DIGITS i = (i + BiD - 1) div BiD"

text \<open>The byte loop of \<^verbatim>\<open>SetBytes\<close>: byte \<open>i\<close> of the buffer goes to byte position
  \<open>start + count - i - 1\<close> of the magnitude.\<close>

fun set_bytes_loop :: "udig_t list \<Rightarrow> nat \<Rightarrow> nat \<Rightarrow> 8 word list \<Rightarrow> nat \<Rightarrow> udig_t list" where
  "set_bytes_loop xs start count [] i = xs"
| "set_bytes_loop xs start count (p # ps) i =
     (let dig = (start + count - i - 1) div CiD;
          pos = (start + count - i - 1) mod CiD;
          v = push_bit (pos * 8) (0xFF :: udig_t)
      in set_bytes_loop (xs[dig := (dg xs dig AND NOT v) OR push_bit (pos * 8) (ucast p)])
           start count ps (i + 1))"

text \<open>\<^verbatim>\<open>SetBytes(start, count, buf)\<close>; \<open>buf\<close> holds \<open>count\<close> bytes.\<close>

definition SetBytes :: "vlong \<Rightarrow> nat \<Rightarrow> nat \<Rightarrow> 8 word list \<Rightarrow> status \<times> vlong" where
  "SetBytes this start count buf =
     (let (r, t) = (if start + count > nu this * CiD
                    then (let (r, t) = Grow this (start + count + 1) in
                          if r \<noteq> VLONG_SUCCESS then (r, t)
                          else (VLONG_SUCCESS, t\<lparr> nu := CHARS_TO_DIGITS (start + count) \<rparr>))
                    else (VLONG_SUCCESS, this))
      in if r \<noteq> VLONG_SUCCESS then (r, t)
         else (VLONG_SUCCESS, t\<lparr> d := set_bytes_loop (d t) start count (take count buf) 0 \<rparr>))"

text \<open>\<^verbatim>\<open>GetBytes(start, count, buf)\<close>: the status and the bytes written to \<open>buf\<close>
  (none on error).\<close>

definition GetBytes :: "vlong \<Rightarrow> nat \<Rightarrow> nat \<Rightarrow> status \<times> 8 word list" where
  "GetBytes this start count =
     (if start + count > nu this * CiD then (VLONG_ERR_OUT_OF_RANGE, [])
      else (VLONG_SUCCESS,
            map (\<lambda>i. let dig = (start + count - i - 1) div CiD;
                          pos = (start + count - i - 1) mod CiD;
                          v = push_bit (pos * 8) (0xFF :: udig_t)
                      in ucast (drop_bit (pos * 8) (dg (d this) dig AND v))) [0..<count]))"

definition FromBinary :: "vlong \<Rightarrow> 8 word list \<Rightarrow> nat \<Rightarrow> status \<times> vlong" where
  "FromBinary this buf buflen = SetBytes (this\<lparr> s := MP_ZPOS \<rparr>) 0 buflen buf"

text \<open>
  \<^verbatim>\<open>ToBinary(buf, buflen)\<close>: the status and the content of the \<open>buflen\<close> bytes of
  \<open>buf\<close> afterwards (zeroed by the \<^verbatim>\<open>memset\<close> when nothing else is written).
\<close>

definition ToBinary :: "vlong \<Rightarrow> nat \<Rightarrow> status \<times> 8 word list" where
  "ToBinary this buflen =
     (let nb = (GetNumBits this + BiD - 1) div BiD in
      if nb > buflen then (VLONG_ERR_BUFFER_SMALL, replicate buflen 0)
      else (let (r, bs) = GetBytes this 0 buflen in
            if r \<noteq> VLONG_SUCCESS then (r, replicate buflen 0) else (r, bs)))"

section \<open>Long-short arithmetic\<close>

text \<open>\<^verbatim>\<open>swap\<close>: the receiver and the other object exchange sign, buffer and counts.
  The result is the pair (receiver, other) afterwards. The source also calls it
  \<^verbatim>\<open>Swap\<close>.\<close>

definition swap :: "vlong \<Rightarrow> vlong \<Rightarrow> vlong \<times> vlong" where
  "swap this v = (v, this)"

text \<open>The sign test \<^verbatim>\<open>(a.s == MP_NEG && b > 0) || (a.s == MP_ZPOS && b < 0)\<close>.\<close>

definition signs_differ :: "vlong \<Rightarrow> sdig_t \<Rightarrow> bool" where
  "signs_differ a b \<longleftrightarrow> (s a = MP_NEG \<and> 0 <s b) \<or> (s a = MP_ZPOS \<and> b <s 0)"

text \<open>Carry loop of \<^verbatim>\<open>Add(a, sdig_t)\<close>: \<^verbatim>\<open>for (i = 1; i < a.nu && u > 0; i++)\<close>.
  The digits of \<open>a\<close> are read from \<open>ad\<close> (the receiver's own buffer when aliased).\<close>

fun add_carry_loop :: "udig_t list \<Rightarrow> (udig_t list \<Rightarrow> udig_t list) \<Rightarrow> nat list \<Rightarrow> udig_t
    \<Rightarrow> udig_t list \<times> udig_t" where
  "add_carry_loop xs ad [] u = (xs, u)"
| "add_carry_loop xs ad (i # is) u =
     (if u > 0 then
        (let sum = (ucast (dg (ad xs) i) :: uwrd_t) + ucast u
         in add_carry_loop (xs[i := ucast (sum AND ucast MP_MASK_DIG)]) ad is
              (ucast (drop_bit BiD sum)))
      else (xs, u))"

text \<open>The part of \<^verbatim>\<open>Add(a, sdig_t b)\<close> after the sign dispatch. \<^verbatim>\<open>(uwrd_t)b\<close>
  sign-extends the signed digit.\<close>

definition AddD_core :: "vlong \<Rightarrow> operand \<Rightarrow> sdig_t \<Rightarrow> status \<times> vlong" where
  "AddD_core this a b =
     (let (r0, t0) = (if na this < nu (arg this a) + 1 then Grow this (nu (arg this a) + 1)
                      else (VLONG_SUCCESS, this)) in
      if r0 \<noteq> VLONG_SUCCESS then (r0, t0)
      else
        let (r1, t1) = (if a \<noteq> This then Copy t0 (arg t0 a) else (VLONG_SUCCESS, t0)) in
        if r1 \<noteq> VLONG_SUCCESS then (r1, t1)
        else
          let ad = (\<lambda>xs. case a of This \<Rightarrow> xs | Obj v \<Rightarrow> d v);
              xs0 = (d t1)[nu t1 := 0];
              sum = (ucast (dg (ad xs0) 0) :: uwrd_t) + scast b;
              xs1 = xs0[0 := ucast (sum AND ucast MP_MASK_DIG)];
              u0 = (ucast (drop_bit BiD sum) :: udig_t);
              (xs2, u) = add_carry_loop xs1 ad [1..<nu (arg t1 a)] u0
          in if u > 0 then (VLONG_SUCCESS, t1\<lparr> d := xs2[nu t1 := u], nu := nu t1 + 1 \<rparr>)
             else (VLONG_SUCCESS, t1\<lparr> d := xs2 \<rparr>))"

text \<open>Borrow loop of \<^verbatim>\<open>Sub(a, sdig_t)\<close>; \<^verbatim>\<open>dif\<close> is a signed 64-bit word.\<close>

fun sub_borrow_loop :: "udig_t list \<Rightarrow> (udig_t list \<Rightarrow> udig_t list) \<Rightarrow> nat list \<Rightarrow> udig_t
    \<Rightarrow> udig_t list \<times> udig_t" where
  "sub_borrow_loop xs ad [] u = (xs, u)"
| "sub_borrow_loop xs ad (i # is) u =
     (if u > 0 then
        (let dif = (ucast (dg (ad xs) i) :: uwrd_t) - ucast u
         in sub_borrow_loop (xs[i := ucast (dif AND ucast MP_MASK_DIG)]) ad is
              (if dif <s 0 then 1 else 0))
      else (xs, u))"

definition SubD_core :: "vlong \<Rightarrow> operand \<Rightarrow> sdig_t \<Rightarrow> status \<times> vlong" where
  "SubD_core this a b =
     (let ba = (if 0 <s b then b else - b);
          (r0, t0) = (if na this < nu (arg this a) then Grow this (nu (arg this a))
                      else (VLONG_SUCCESS, this)) in
      if r0 \<noteq> VLONG_SUCCESS then (r0, t0)
      else
        let (r1, t1) = (if a \<noteq> This then Copy t0 (arg t0 a) else (VLONG_SUCCESS, t0)) in
        if r1 \<noteq> VLONG_SUCCESS then (r1, t1)
        else if nu (arg t1 a) = 1 \<and> dg (d (arg t1 a)) 0 \<le> ba then
          (let d0 = ba - dg (d t1) 0;
               t2 = t1\<lparr> d := (d t1)[0 := d0],
                        s := (if s (arg t1 a) = MP_ZPOS then MP_NEG else MP_ZPOS) \<rparr>
           in (VLONG_SUCCESS, if d0 = 0 then t2\<lparr> s := MP_ZPOS, nu := 0 \<rparr> else t2))
        else
          let ad = (\<lambda>xs. case a of This \<Rightarrow> xs | Obj v \<Rightarrow> d v);
              dif = (ucast (dg (ad (d t1)) 0) :: uwrd_t) - ucast ba;
              u0 = (if dif <s 0 then 1 else 0 :: udig_t);
              xs1 = (d t1)[0 := ucast (dif AND ucast MP_MASK_DIG)];
              (xs2, u) = sub_borrow_loop xs1 ad [1..<nu (arg t1 a)] u0;
              t2 = t1\<lparr> d := xs2 \<rparr>
          in (VLONG_SUCCESS, if dg (d t2) (nu t2 - 1) = 0 then t2\<lparr> nu := nu t2 - 1 \<rparr> else t2))"

text \<open>
  \<^verbatim>\<open>Add(a, sdig_t b)\<close> and \<^verbatim>\<open>Sub(a, sdig_t b)\<close> call each other with \<open>-b\<close> when
  the signs differ. For \<open>b = INT_MIN\<close> the negation returns \<open>b\<close> and the calls never
  end, so the pair is one partial function; the flag says which of the two is running.
\<close>

partial_function (option) AddSubD :: "bool \<Rightarrow> vlong \<Rightarrow> operand \<Rightarrow> sdig_t \<Rightarrow> (status \<times> vlong) option"
  where
  "AddSubD is_add this a b =
     (if b = 0 then Some (VLONG_SUCCESS, this)
      else if nu (arg this a) = 0 then Some (SetValue this (if is_add then b else - b))
      else if signs_differ (arg this a) b then AddSubD (\<not> is_add) this a (- b)
      else Some (if is_add then AddD_core this a b else SubD_core this a b))"

declare AddSubD.simps [code]

definition AddD :: "vlong \<Rightarrow> operand \<Rightarrow> sdig_t \<Rightarrow> (status \<times> vlong) option" where
  "AddD this a b = AddSubD True this a b"

definition SubD :: "vlong \<Rightarrow> operand \<Rightarrow> sdig_t \<Rightarrow> (status \<times> vlong) option" where
  "SubD this a b = AddSubD False this a b"

text \<open>The multiply loop of \<^verbatim>\<open>prvMulDig\<close>.\<close>

fun muldig_loop :: "udig_t list \<Rightarrow> (udig_t list \<Rightarrow> udig_t list) \<Rightarrow> udig_t \<Rightarrow> nat list \<Rightarrow> udig_t
    \<Rightarrow> udig_t list \<times> udig_t" where
  "muldig_loop xs ad b [] u = (xs, u)"
| "muldig_loop xs ad b (i # is) u =
     (let w = (ucast (dg (ad xs) i) :: uwrd_t) * ucast b + ucast u
      in muldig_loop (xs[i := ucast (w AND ucast MP_MASK_DIG)]) ad b is (ucast (drop_bit BiD w)))"

text \<open>\<^verbatim>\<open>prvMulDig(a, b)\<close>; the growth test compares \<open>nu\<close>, as the source does.\<close>

definition prvMulDig :: "vlong \<Rightarrow> operand \<Rightarrow> udig_t \<Rightarrow> status \<times> vlong" where
  "prvMulDig this a b =
     (let (r0, t0) = (if nu this < nu (arg this a) + 1 then Grow this (nu (arg this a) + 1)
                      else (VLONG_SUCCESS, this)) in
      if r0 \<noteq> VLONG_SUCCESS then (r0, t0)
      else
        let n = nu (arg t0 a);
            ad = (\<lambda>xs. case a of This \<Rightarrow> xs | Obj v \<Rightarrow> d v);
            (xs, u) = muldig_loop (d t0) ad b [0..<n] 0
        in if u > 0 then (VLONG_SUCCESS, t0\<lparr> d := xs[n := u], nu := n + 1 \<rparr>)
           else (VLONG_SUCCESS, t0\<lparr> d := xs, nu := n \<rparr>))"

text \<open>\<^verbatim>\<open>Mul(a, sdig_t b)\<close>.\<close>

definition MulD :: "vlong \<Rightarrow> operand \<Rightarrow> sdig_t \<Rightarrow> status \<times> vlong" where
  "MulD this a b =
     (let b1 = (if 0 <s b then b else - b);
          sa = s (arg this a);
          (r, t) = prvMulDig this a b1 in
      if r \<noteq> VLONG_SUCCESS then (r, t)
      else (VLONG_SUCCESS,
            t\<lparr> s := (if (sa = MP_ZPOS \<and> b <s 0) \<or> (sa = MP_NEG \<and> 0 <s b) then MP_NEG
                      else MP_ZPOS) \<rparr>))"

text \<open>\<^verbatim>\<open>prvModPow2(a, bits)\<close>.\<close>

definition prvModPow2 :: "vlong \<Rightarrow> operand \<Rightarrow> nat \<Rightarrow> status \<times> vlong" where
  "prvModPow2 this a bits =
     (if bits = 0 then (VLONG_SUCCESS, SetZero this)
      else
        let (r0, t0) = (if a \<noteq> This then Copy this (arg this a) else (VLONG_SUCCESS, this)) in
        if r0 \<noteq> VLONG_SUCCESS then (r0, t0)
        else if bits \<ge> nu (arg t0 a) * BiD then (VLONG_SUCCESS, t0)
        else
          let xs = map (\<lambda>i. if (bits + BiD - 1) div BiD \<le> i \<and> i < nu t0 then 0 else dg (d t0) i)
                     [0..<length (d t0)];
              m = push_bit (bits mod BiD) (1 :: udig_t) - 1
          in (VLONG_SUCCESS, Clamp (t0\<lparr> d := xs[bits div BiD := dg xs (bits div BiD) AND m] \<rparr>)))"

text \<open>
  \<^verbatim>\<open>prvDivPow2(a, bits, r)\<close>. The remainder argument \<open>r\<close> is \<^verbatim>\<open>NULL\<close>, another
  object, or the very object passed as \<open>a\<close> (as \<^verbatim>\<open>prvReduceDR\<close> calls it). The result
  is the status, the receiver and the remainder object afterwards (if there is one that
  is not the receiver).
\<close>

datatype rarg = RNull | RObj vlong | RSame

definition prvDivPow2 :: "vlong \<Rightarrow> operand \<Rightarrow> nat \<Rightarrow> rarg \<Rightarrow> status \<times> vlong \<times> vlong option" where
  "prvDivPow2 this a bits r =
     (case a of
        This \<Rightarrow>
          (let (r1, tmp1) = ShiftRight Init (Obj this) (int bits) in
           if r1 \<noteq> VLONG_SUCCESS then (r1, this, None)
           else
             (case r of
                RNull \<Rightarrow> (VLONG_SUCCESS, fst (swap this tmp1), None)
              | RObj rv \<Rightarrow>
                  (let (r2, rv') = prvModPow2 rv (Obj this) bits in
                   if r2 \<noteq> VLONG_SUCCESS then (r2, this, Some rv')
                   else (VLONG_SUCCESS, fst (swap this tmp1), Some rv'))
              | RSame \<Rightarrow>
                  (let (r2, t') = prvModPow2 this This bits in
                   if r2 \<noteq> VLONG_SUCCESS then (r2, t', None)
                   else (VLONG_SUCCESS, fst (swap t' tmp1), None))))
      | Obj av \<Rightarrow>
          (let (r1, t1) = ShiftRight this (Obj av) (int bits) in
           if r1 \<noteq> VLONG_SUCCESS then (r1, t1, None)
           else
             (case r of
                RNull \<Rightarrow> (VLONG_SUCCESS, t1, None)
              | RObj rv \<Rightarrow>
                  (let (r2, rv') = prvModPow2 rv (Obj av) bits in (r2, t1, Some rv'))
              | RSame \<Rightarrow>
                  (let (r2, av') = prvModPow2 av This bits in (r2, t1, Some av')))))"

text \<open>\<^verbatim>\<open>prvIsPow2(b, &nbits)\<close>: \<open>None\<close> for the return value 0.\<close>

definition prvIsPow2 :: "udig_t \<Rightarrow> nat option" where
  "prvIsPow2 b =
     (if b = 0 \<or> (b AND (b - 1)) \<noteq> 0 then None
      else Some (count_bits_loop (drop_bit 1 b) 0))"

text \<open>The division loop of \<^verbatim>\<open>prvDivInt\<close>, from digit \<open>i - 1\<close> down to digit 0;
  \<open>qd\<close> is the quotient's buffer (\<open>None\<close> when \<^verbatim>\<open>q == NULL\<close>).\<close>

fun divint_loop :: "udig_t list \<Rightarrow> udig_t \<Rightarrow> nat \<Rightarrow> uwrd_t \<Rightarrow> udig_t list option
    \<Rightarrow> udig_t list option \<times> uwrd_t" where
  "divint_loop ad b 0 w qd = (qd, w)"
| "divint_loop ad b (Suc i) w qd =
     (let w1 = push_bit BiD w OR ucast (dg ad i);
          t = (if w1 \<ge> ucast b then (ucast (w1 div ucast b) :: udig_t) else 0);
          w2 = (if w1 \<ge> ucast b then w1 - ucast t * ucast b else w1)
      in divint_loop ad b i w2 (map_option (\<lambda>q. q[i := t]) qd))"

text \<open>
  \<^verbatim>\<open>prvDivInt(a, b, q, &r)\<close>. Its only caller, \<^verbatim>\<open>Div(a, sdig_t, r)\<close>, always
  passes a remainder pointer and a quotient object that is not \<open>a\<close>. The result is the
  status, the quotient object afterwards and the remainder digit written (if any).
\<close>

definition prvDivInt :: "vlong \<Rightarrow> udig_t \<Rightarrow> vlong option \<Rightarrow> status \<times> vlong option \<times> udig_t option"
  where
  "prvDivInt a b q =
     (if b = 0 then (VLONG_ERR_DIV_BY_ZERO, q, None)
      else if nu a = 0 then (VLONG_SUCCESS, map_option SetZero q, Some b)
      else if b = 1 then
        (case q of
           None \<Rightarrow> (VLONG_SUCCESS, None, Some 0)
         | Some qv \<Rightarrow> (let (r, qv') = Copy qv a in (r, Some qv', Some 0)))
      else
        (case prvIsPow2 b of
           Some ix \<Rightarrow>
             (let rem = dg (d a) 0 AND (push_bit ix (1 :: udig_t) - 1) in
              case q of
                None \<Rightarrow> (VLONG_SUCCESS, None, Some rem)
              | Some qv \<Rightarrow>
                  (let (r, qv', _) = prvDivPow2 qv (Obj a) ix RNull in (r, Some qv', Some rem)))
         | None \<Rightarrow>
             (let (r0, q0) = (case q of None \<Rightarrow> (VLONG_SUCCESS, None)
                              | Some qv \<Rightarrow> (let (r, qv') = Grow qv (nu a) in (r, Some qv'))) in
              if r0 \<noteq> VLONG_SUCCESS then (r0, q0, None)
              else
                let q1 = map_option (\<lambda>qv. qv\<lparr> nu := nu a \<rparr>) q0;
                    (qd, w) = divint_loop (d a) b (nu a) 0 (map_option d q1)
                in (VLONG_SUCCESS,
                    map_option (\<lambda>qv. qv\<lparr> d := (case qd of Some xs \<Rightarrow> xs | None \<Rightarrow> d qv) \<rparr>) q1,
                    Some (ucast w)))))"

text \<open>
  \<^verbatim>\<open>Div(a, sdig_t b, sdig_t *r)\<close>. The result is the status, the receiver and the
  remainder written through \<open>r\<close> (\<open>None\<close> when nothing was written). The source
  passes the signed \<open>b\<close>, not \<open>b2\<close>, to \<^verbatim>\<open>prvDivInt\<close>, where it is read as an
  unsigned digit.
\<close>

definition DivD :: "vlong \<Rightarrow> operand \<Rightarrow> sdig_t \<Rightarrow> status \<times> vlong \<times> sdig_t option" where
  "DivD this a b =
     (let av = arg this a;
          signq = (if (b <s 0 \<and> s av = MP_ZPOS) \<or> (0 <s b \<and> s av = MP_NEG) then MP_NEG
                   else MP_ZPOS);
          b2 = (if 0 <s b then b else - b)
      in
      if b2 = 1 then
        (let (r0, t0) = (if a \<noteq> This then Copy this av else (VLONG_SUCCESS, this)) in
         if r0 \<noteq> VLONG_SUCCESS then (r0, t0, Some 0)
         else (VLONG_SUCCESS, t0\<lparr> s := signq \<rparr>, Some 0))
      else
        let x = (if a = This then Init else this);
            (r1, x', r2) = prvDivInt av b (Some x)
        in
        if r1 \<noteq> VLONG_SUCCESS then
          (r1, (if a = This then this else (case x' of Some xv \<Rightarrow> xv | None \<Rightarrow> this)), None)
        else
          let xv = (case x' of Some xv \<Rightarrow> xv | None \<Rightarrow> x);
              r2v = (case r2 of Some w \<Rightarrow> w | None \<Rightarrow> 0);
              rout = (if s av = MP_NEG then - r2v else r2v);
              t = (if a = This then prvMovePtr this xv else xv)
          in (VLONG_SUCCESS, Clamp (t\<lparr> s := signq \<rparr>), Some rout))"

text \<open>\<^verbatim>\<open>Mod(a, sdig_t b)\<close>: divides into a temporary and stores the remainder.\<close>

definition ModD :: "vlong \<Rightarrow> operand \<Rightarrow> sdig_t \<Rightarrow> status \<times> vlong" where
  "ModD this a b =
     (let (ret, tmp, r) = DivD Init (Obj (arg this a)) b in
      if ret = VLONG_SUCCESS then SetValue this (case r of Some x \<Rightarrow> x | None \<Rightarrow> 0)
      else (ret, this))"

text \<open>\<^verbatim>\<open>ModDig(a, b)\<close> returns the remainder itself.\<close>

definition ModDig :: "vlong \<Rightarrow> sdig_t \<Rightarrow> sdig_t" where
  "ModDig a b =
     (if b = 0 then 0
      else (let (ret, tmp, r) = DivD Init (Obj a) b in (case r of Some x \<Rightarrow> x | None \<Rightarrow> 0)))"

section \<open>Long-long arithmetic\<close>

text \<open>The two carry loops of \<^verbatim>\<open>prvAddMag\<close>.\<close>

fun addmag_loop :: "udig_t list \<Rightarrow> udig_t list \<Rightarrow> udig_t list \<Rightarrow> nat list \<Rightarrow> udig_t
    \<Rightarrow> udig_t list \<times> udig_t" where
  "addmag_loop cd ad bd [] u = (cd, u)"
| "addmag_loop cd ad bd (i # is) u =
     (let sum = (ucast (dg ad i) :: uwrd_t) + ucast (dg bd i) + ucast u
      in addmag_loop (cd[i := ucast (sum AND ucast MP_MASK_DIG)]) ad bd is
           (ucast (drop_bit BiD sum)))"

fun addmag_high_loop :: "udig_t list \<Rightarrow> udig_t list \<Rightarrow> nat list \<Rightarrow> udig_t
    \<Rightarrow> udig_t list \<times> udig_t" where
  "addmag_high_loop cd xd [] u = (cd, u)"
| "addmag_high_loop cd xd (i # is) u =
     (let sum = (ucast (dg xd i) :: uwrd_t) + ucast u
      in addmag_high_loop (cd[i := ucast (sum AND ucast MP_MASK_DIG)]) xd is
           (ucast (drop_bit BiD sum)))"

text \<open>
  \<^verbatim>\<open>prvAddMag(a, b)\<close>. When an operand is the receiver the sum is built in a
  temporary and moved in at the end. The \<^verbatim>\<open>memset\<close> clears \<open>nu\<close> digits of the
  target, where \<open>nu\<close> is the receiver's count.
\<close>

definition prvAddMag :: "vlong \<Rightarrow> operand \<Rightarrow> operand \<Rightarrow> status \<times> vlong" where
  "prvAddMag this a b =
     (let av = arg this a; bv = arg this b;
          nmin = (if nu av < nu bv then nu av else nu bv);
          nmax = (if nu av > nu bv then nu av else nu bv);
          alias = (a = This \<or> b = This);
          c0 = (if alias then Init else this);
          (r, c1) = (if na c0 < nmax + 1 then Grow c0 (nmax + 1) else (VLONG_SUCCESS, c0))
      in
      if r \<noteq> VLONG_SUCCESS then (r, if alias then this else c1)
      else
        let xv = (if nu av < nu bv then bv else av);
            cd0 = zero_range (d c1) 0 (nu this);
            (cd1, u1) = addmag_loop cd0 (d av) (d bv) [0..<nmin] 0;
            (cd2, u2) = (if nmin \<noteq> nmax then addmag_high_loop cd1 (d xv) [nmin..<nmax] u1
                         else (cd1, u1));
            c2 = (if u2 > 0 then c1\<lparr> d := cd2[nmax := u2], nu := nmax + 1 \<rparr>
                  else c1\<lparr> d := cd2, nu := nmax \<rparr>)
        in (VLONG_SUCCESS, if alias then prvMovePtr this c2 else c2))"

text \<open>The two borrow loops of \<^verbatim>\<open>prvSubMag\<close>.\<close>

fun submag_loop :: "udig_t list \<Rightarrow> udig_t list \<Rightarrow> udig_t list \<Rightarrow> nat list \<Rightarrow> udig_t
    \<Rightarrow> udig_t list \<times> udig_t" where
  "submag_loop cd ad bd [] u = (cd, u)"
| "submag_loop cd ad bd (i # is) u =
     (let dif = (ucast (dg ad i) :: uwrd_t) - ucast (dg bd i) - ucast u
      in submag_loop (cd[i := ucast (dif AND ucast MP_MASK_DIG)]) ad bd is
           (if dif <s 0 then 1 else 0))"

fun submag_high_loop :: "udig_t list \<Rightarrow> udig_t list \<Rightarrow> nat list \<Rightarrow> udig_t
    \<Rightarrow> udig_t list \<times> udig_t" where
  "submag_high_loop cd ad [] u = (cd, u)"
| "submag_high_loop cd ad (i # is) u =
     (let dif = (ucast (dg ad i) :: uwrd_t) - ucast u
      in submag_high_loop (cd[i := ucast (dif AND ucast MP_MASK_DIG)]) ad is
           (if dif <s 0 then 1 else 0))"

text \<open>\<^verbatim>\<open>prvSubMag(a, b)\<close> (assumes \<open>|a| \<ge> |b|\<close>).\<close>

definition prvSubMag :: "vlong \<Rightarrow> operand \<Rightarrow> operand \<Rightarrow> status \<times> vlong" where
  "prvSubMag this a b =
     (let av = arg this a; bv = arg this b;
          nmin = nu bv;
          nmax = nu av;
          alias = (a = This \<or> b = This);
          c0 = (if alias then Init else this);
          (r, c1) = (if na c0 < nmax then Grow c0 nmax else (VLONG_SUCCESS, c0))
      in
      if r \<noteq> VLONG_SUCCESS then (r, if alias then this else c1)
      else
        let cd0 = zero_range (d c1) 0 nmax;
            (cd1, u1) = submag_loop cd0 (d av) (d bv) [0..<nmin] 0;
            (cd2, u2) = submag_high_loop cd1 (d av) [nmin..<nmax] u1;
            c2 = c1\<lparr> d := cd2, nu := nmax \<rparr>
        in (VLONG_SUCCESS, Clamp (if alias then prvMovePtr this c2 else c2)))"

text \<open>\<^verbatim>\<open>Add(a, b)\<close> and \<^verbatim>\<open>Sub(a, b)\<close> on two vlongs. The sign is stored before
  the magnitudes are combined.\<close>

definition AddV :: "vlong \<Rightarrow> operand \<Rightarrow> operand \<Rightarrow> status \<times> vlong" where
  "AddV this a b =
     (let av = arg this a; bv = arg this b in
      if s av = s bv then prvAddMag (this\<lparr> s := s av \<rparr>) a b
      else if CompareMag av bv = MP_LT then prvSubMag (this\<lparr> s := s bv \<rparr>) b a
      else prvSubMag (this\<lparr> s := s av \<rparr>) a b)"

definition SubV :: "vlong \<Rightarrow> operand \<Rightarrow> operand \<Rightarrow> status \<times> vlong" where
  "SubV this a b =
     (let av = arg this a; bv = arg this b in
      if s av \<noteq> s bv then prvAddMag (this\<lparr> s := s av \<rparr>) a b
      else if CompareMag av bv = MP_GT then prvSubMag (this\<lparr> s := s av \<rparr>) a b
      else prvSubMag (this\<lparr> s := (if s av = MP_ZPOS then MP_NEG else MP_ZPOS) \<rparr>) b a)"

text \<open>The inner and outer loops of \<^verbatim>\<open>prvMulBaseline\<close>.\<close>

fun mulbase_inner :: "udig_t list \<Rightarrow> udig_t \<Rightarrow> udig_t list \<Rightarrow> nat \<Rightarrow> nat list \<Rightarrow> udig_t
    \<Rightarrow> udig_t list \<times> udig_t" where
  "mulbase_inner xs t1 bd i [] u = (xs, u)"
| "mulbase_inner xs t1 bd i (j # js) u =
     (let r = (ucast (dg xs (i + j)) :: uwrd_t) + ucast t1 * ucast (dg bd j) + ucast u
      in mulbase_inner (xs[i + j := ucast (r AND ucast MP_MASK_DIG)]) t1 bd i js
           (ucast (drop_bit BiD r)))"

fun mulbase_outer :: "udig_t list \<Rightarrow> udig_t list \<Rightarrow> udig_t list \<Rightarrow> nat \<Rightarrow> nat \<Rightarrow> nat list
    \<Rightarrow> udig_t list" where
  "mulbase_outer xs ad bd nmin digs [] = xs"
| "mulbase_outer xs ad bd nmin digs (i # is) =
     (let (xs1, u) = mulbase_inner xs (dg ad i) bd i [0..<nmin] 0;
          xs2 = (if i + nmin < digs then xs1[i + nmin := u] else xs1)
      in mulbase_outer xs2 ad bd nmin digs is)"

text \<open>\<^verbatim>\<open>prvMulBaseline(a, b, ndigs)\<close>; the receiver is never an operand (\<^verbatim>\<open>Mul\<close>
  calls it on a temporary when it is).\<close>

definition prvMulBaseline :: "vlong \<Rightarrow> vlong \<Rightarrow> vlong \<Rightarrow> nat \<Rightarrow> status \<times> vlong" where
  "prvMulBaseline this a b ndigs =
     (let digs = (if nu a + nu b < ndigs then nu a + nu b else ndigs);
          (r, t0) = (if nu this < digs then Grow this digs else (VLONG_SUCCESS, this))
      in
      if r \<noteq> VLONG_SUCCESS then (r, t0)
      else
        let xs0 = zero_range (d t0) 0 digs;
            nmin = (if ndigs < nu b then ndigs else nu b);
            xs1 = mulbase_outer xs0 (d a) (d b) nmin digs [0..<nu a]
        in (VLONG_SUCCESS, Clamp (t0\<lparr> d := xs1, nu := digs \<rparr>)))"

text \<open>
  \<^verbatim>\<open>Mul(a, b, maxdigs)\<close> and \<^verbatim>\<open>prvMulKaratsuba(a, b)\<close> call each other, so they are
  one partial function: above the cutoff the body of \<^verbatim>\<open>prvMulKaratsuba\<close> stands in
  place of its call (its receiver \<open>x\<close> is never one of its operands). The last
  \<^verbatim>\<open>memset\<close> of \<^verbatim>\<open>Mul\<close> counts \<^verbatim>\<open>x->nu - digs*sizeof(udig_t)\<close> bytes; when that
  difference wraps around the source has undefined behaviour, and the model clears
  nothing (the digits concerned lie above the new \<open>nu\<close>).
\<close>

partial_function (option) Mul :: "vlong \<Rightarrow> operand \<Rightarrow> operand \<Rightarrow> nat \<Rightarrow> (status \<times> vlong) option"
  where
  "Mul this a b maxdigs =
     (let av = arg this a; bv = arg this b;
          sign = (if s av = s bv then MP_ZPOS else MP_NEG)
      in
      if nu av = 0 \<or> nu bv = 0 then Some (VLONG_SUCCESS, SetZero this)
      else
        let nmin = (if nu av < nu bv then nu av else nu bv);
            alias = (a = This \<or> b = This);
            x0 = (if alias then Init else this);
            digs0 = nu av + nu bv;
            (rg, x1) = (if nu x0 < digs0 then Grow x0 digs0 else (VLONG_SUCCESS, x0))
        in
        if rg \<noteq> VLONG_SUCCESS then Some (rg, if alias then this else x1)
        else
          let digs = (if maxdigs > 0 \<and> maxdigs < digs0 then maxdigs else digs0);
              finish = (\<lambda>(ret, x2).
                 let x3 = (if nu x2 > digs
                           then x2\<lparr> d := zero_range (d x2) digs ((nu x2 - digs * CiD) div CiD),
                                    nu := digs \<rparr>
                           else x2);
                     t = (if alias then prvMovePtr this x3 else x3)
                 in Some (ret, t\<lparr> s := sign \<rparr>))
          in
          if nmin \<ge> VLONG_KARATSUBA_MUL_CUTOFF then
            (let B = nmin div 2;
                 (r1, kx0) = Grow Init (B * 2);
                 (r2, kx1) = Grow Init (nu av - B);
                 (r3, ky0) = Grow Init B;
                 (r4, ky1) = Grow Init (nu bv - B);
                 (r5, kt1) = Grow Init (B * 2);
                 (r6, kx0y0) = Grow Init (B * 2);
                 (r7, kx1y1) = Grow Init (B * 2)
             in
             if r1 \<noteq> VLONG_SUCCESS then finish (r1, x1)
             else if r2 \<noteq> VLONG_SUCCESS then finish (r2, x1)
             else if r3 \<noteq> VLONG_SUCCESS then finish (r3, x1)
             else if r4 \<noteq> VLONG_SUCCESS then finish (r4, x1)
             else if r5 \<noteq> VLONG_SUCCESS then finish (r5, x1)
             else if r6 \<noteq> VLONG_SUCCESS then finish (r6, x1)
             else if r7 \<noteq> VLONG_SUCCESS then finish (r7, x1)
             else
               let vx0 = Clamp (kx0\<lparr> nu := B, d := copy_digits (d kx0) (d av) B \<rparr>);
                   vy0 = Clamp (ky0\<lparr> nu := B, d := copy_digits (d ky0) (d bv) B \<rparr>);
                   vx1 = kx1\<lparr> nu := nu av - B, d := copy_digits (d kx1) (drop B (d av)) (nu av - B) \<rparr>;
                   vy1 = ky1\<lparr> nu := nu bv - B, d := copy_digits (d ky1) (drop B (d bv)) (nu bv - B) \<rparr>
               in
               do {
                 (q1, x0y0) \<leftarrow> Mul kx0y0 (Obj vx0) (Obj vy0) 0;
                 if q1 \<noteq> VLONG_SUCCESS then finish (q1, x1) else do {
                 (q2, x1y1) \<leftarrow> Mul kx1y1 (Obj vx1) (Obj vy1) 0;
                 if q2 \<noteq> VLONG_SUCCESS then finish (q2, x1) else
                 let (q3, t1a) = AddV kt1 (Obj vx1) (Obj vx0) in
                 if q3 \<noteq> VLONG_SUCCESS then finish (q3, x1) else
                 let (q4, x0a) = AddV vx0 (Obj vy1) (Obj vy0) in
                 if q4 \<noteq> VLONG_SUCCESS then finish (q4, x1) else do {
                 (q5, t1b) \<leftarrow> Mul t1a (Obj x0a) This 0;
                 if q5 \<noteq> VLONG_SUCCESS then finish (q5, x1) else
                 let (q6, x0b) = AddV x0a (Obj x0y0) (Obj x1y1) in
                 if q6 \<noteq> VLONG_SUCCESS then finish (q6, x1) else
                 let (q7, t1c) = SubV t1b This (Obj x0b) in
                 if q7 \<noteq> VLONG_SUCCESS then finish (q7, x1) else
                 let (q8, t1d) = prvLeftShiftDigits t1c B in
                 if q8 \<noteq> VLONG_SUCCESS then finish (q8, x1) else
                 let (q9, x1y1s) = prvLeftShiftDigits x1y1 (B * 2) in
                 if q9 \<noteq> VLONG_SUCCESS then finish (q9, x1) else
                 let (q10, t1e) = AddV t1d (Obj x0y0) This in
                 if q10 \<noteq> VLONG_SUCCESS then finish (q10, x1) else
                 finish (AddV x1 (Obj t1e) (Obj x1y1s))
               }}})
          else finish (prvMulBaseline x1 av bv digs))"

declare Mul.simps [code]

definition Sqr :: "vlong \<Rightarrow> operand \<Rightarrow> (status \<times> vlong) option" where
  "Sqr this a = Mul this a a 0"

section \<open>Division (prvDivBig)\<close>

text \<open>The loop \<^verbatim>\<open>while (CompareMag(x,y) != MP_LT) { ++(q.d[n - t]); x.prvSubMag(x,y); }\<close>;
  \<open>k\<close> is \<open>n - t\<close>.\<close>

partial_function (option) divbig_while :: "vlong \<Rightarrow> vlong \<Rightarrow> vlong \<Rightarrow> nat
    \<Rightarrow> (status \<times> vlong \<times> vlong) option" where
  "divbig_while q x y k =
     (if CompareMag x y \<noteq> MP_LT then
        (let q' = q\<lparr> d := (d q)[k := dg (d q) k + 1] \<rparr>;
             (r, x') = prvSubMag x This (Obj y)
         in if r \<noteq> VLONG_SUCCESS then Some (r, q', x') else divbig_while q' x' y k)
      else Some (VLONG_SUCCESS, q, x))"

declare divbig_while.simps [code]

text \<open>The \<^verbatim>\<open>do { ... } while (CompareMag(t1, t2) == MP_GT)\<close> loop that corrects the
  quotient digit \<open>q.d[i - t - 1]\<close>.\<close>

partial_function (option) divbig_dowhile :: "vlong \<Rightarrow> vlong \<Rightarrow> vlong \<Rightarrow> vlong \<Rightarrow> vlong \<Rightarrow> nat \<Rightarrow> nat
    \<Rightarrow> (status \<times> vlong \<times> vlong \<times> vlong) option" where
  "divbig_dowhile q x y t1 t2 i t =
     (let q' = q\<lparr> d := (d q)[i - t - 1 := dg (d q) (i - t - 1) - 1] \<rparr>;
          t1a = SetZero t1;
          t1b = t1a\<lparr> d := (d t1a)[0 := (if t < 1 then 0 else dg (d y) (t - 1)), 1 := dg (d y) t],
                     nu := 2 \<rparr>;
          (r, t1c) = prvMulDig t1b This (dg (d q') (i - t - 1))
      in
      if r \<noteq> VLONG_SUCCESS then Some (r, q', t1c, t2)
      else
        let t2' = t2\<lparr> d := (d t2)[0 := (if i < 2 then 0 else dg (d x) (i - 2)),
                                    1 := (if i < 1 then 0 else dg (d x) (i - 1)),
                                    2 := dg (d x) i],
                      nu := 3 \<rparr>
        in if CompareMag t1c t2' = MP_GT then divbig_dowhile q' x y t1c t2' i t
           else Some (VLONG_SUCCESS, q', t1c, t2'))"

declare divbig_dowhile.simps [code]

text \<open>One round of the main loop (step 3 of HAC 14.20) for the index \<open>i\<close>, on the
  locals \<open>(q, x, t1, t2)\<close>.\<close>

definition divbig_step :: "vlong \<Rightarrow> nat \<Rightarrow> nat \<Rightarrow> vlong \<times> vlong \<times> vlong \<times> vlong
    \<Rightarrow> (status \<times> vlong \<times> vlong \<times> vlong \<times> vlong) option" where
  "divbig_step y t i st =
     (let (q, x, t1, t2) = st in
      if i > nu x then Some (VLONG_SUCCESS, q, x, t1, t2)
      else
        let qd = (if dg (d x) i = dg (d y) t then MP_MASK_DIG
                  else
                    let tmpx0 = (push_bit BiD (ucast (dg (d x) i) :: uwrd_t) OR ucast (dg (d x) (i - 1)))
                                div ucast (dg (d y) t);
                        tmpx = (if tmpx0 > ucast MP_MASK_DIG then ucast MP_MASK_DIG else tmpx0)
                    in ucast (tmpx AND ucast MP_MASK_DIG));
            q1 = q\<lparr> d := (d q)[i - t - 1 := qd + 1] \<rparr>
        in
        do {
          (r0, q2, t1a, t2a) \<leftarrow> divbig_dowhile q1 x y t1 t2 i t;
          if r0 \<noteq> VLONG_SUCCESS then Some (r0, q2, x, t1a, t2a)
          else
            let (r1, t1b) = prvMulDig t1a (Obj y) (dg (d q2) (i - t - 1)) in
            if r1 \<noteq> VLONG_SUCCESS then Some (r1, q2, x, t1b, t2a) else
            let (r2, t1c) = prvLeftShiftDigits t1b (i - t - 1) in
            if r2 \<noteq> VLONG_SUCCESS then Some (r2, q2, x, t1c, t2a) else
            let (r3, x1) = SubV x This (Obj t1c) in
            if r3 \<noteq> VLONG_SUCCESS then Some (r3, q2, x1, t1c, t2a) else
            if s x1 = MP_NEG then
              (let (r4, t1d) = Copy t1c y in
               if r4 \<noteq> VLONG_SUCCESS then Some (r4, q2, x1, t1d, t2a) else
               let (r5, t1e) = prvLeftShiftDigits t1d (i - t - 1) in
               if r5 \<noteq> VLONG_SUCCESS then Some (r5, q2, x1, t1e, t2a) else
               let (r6, x2) = AddV x1 This (Obj t1e) in
               if r6 \<noteq> VLONG_SUCCESS then Some (r6, q2, x2, t1e, t2a) else
               Some (VLONG_SUCCESS,
                     q2\<lparr> d := (d q2)[i - t - 1 := (dg (d q2) (i - t - 1) - 1) AND MP_MASK_DIG] \<rparr>,
                     x2, t1e, t2a))
            else Some (VLONG_SUCCESS, q2, x1, t1c, t2a)
        })"

text \<open>The main loop \<^verbatim>\<open>for (i = n; i >= t + 1; i--)\<close> over the indices \<open>is\<close>.\<close>

fun divbig_for :: "vlong \<Rightarrow> nat \<Rightarrow> nat list \<Rightarrow> vlong \<times> vlong \<times> vlong \<times> vlong
    \<Rightarrow> (status \<times> vlong \<times> vlong \<times> vlong \<times> vlong) option" where
  "divbig_for y t [] st = Some (VLONG_SUCCESS, st)"
| "divbig_for y t (i # is) st =
     (case divbig_step y t i st of
        None \<Rightarrow> None
      | Some (r, st') \<Rightarrow> if r \<noteq> VLONG_SUCCESS then Some (r, st') else divbig_for y t is st')"

text \<open>
  \<^verbatim>\<open>prvDivBig(a, b, q2, r)\<close> is a static function on four pointers; callers pass the
  receiver for \<open>q2\<close> or \<open>r\<close>, and the receiver may be one of the operands. It is
  therefore modelled over a store: \<open>a\<close> and \<open>b\<close> are addresses, \<open>q2\<close> and \<open>r\<close>
  are addresses or \<open>None\<close> for \<^verbatim>\<open>NULL\<close>. The locals \<open>q, x, y, t1, t2\<close> are fresh
  objects. A zero top digit of \<open>b\<close> (an unclamped divisor) makes the source divide by
  zero; the model is not meant for that input.
\<close>

definition prvDivBig :: "store \<Rightarrow> nat \<Rightarrow> nat \<Rightarrow> nat option \<Rightarrow> nat option \<Rightarrow> (status \<times> store) option"
  where
  "prvDivBig st a b q2 r =
     (let sign = (if s (st a) = s (st b) then MP_ZPOS else MP_NEG) in
      if nu (st b) = 0 then Some (VLONG_ERR_DIV_BY_ZERO, st)
      else
        let cmp = CompareMag (st a) (st b) in
        if cmp = MP_LT then
          (let (r1, st1) = (case r of None \<Rightarrow> (VLONG_SUCCESS, st)
                            | Some pr \<Rightarrow> (let (rc, v) = Copy (st pr) (st a) in (rc, st(pr := v))))
           in if r1 \<noteq> VLONG_SUCCESS then Some (r1, st1)
              else Some (VLONG_SUCCESS,
                         case q2 of None \<Rightarrow> st1 | Some pq \<Rightarrow> st1(pq := SetZero (st1 pq))))
        else if cmp = MP_EQ then
          (let st1 = (case r of None \<Rightarrow> st | Some pr \<Rightarrow> st(pr := SetZero (st pr)));
               st2 = (case q2 of None \<Rightarrow> st1
                      | Some pq \<Rightarrow> st1(pq := (snd (Copy (st1 pq) (st1 a)))\<lparr> s := sign \<rparr>))
           in Some (VLONG_SUCCESS, st2))
        else
          let (g1, q0) = Grow Init (nu (st a) + 2) in
          if g1 \<noteq> VLONG_SUCCESS then Some (g1, st) else
          let q1 = q0\<lparr> nu := nu (st a) + 2 \<rparr>;
              (g2, t1) = Grow Init (nu (st a) + 2) in
          if g2 \<noteq> VLONG_SUCCESS then Some (g2, st) else
          let (g3, t2) = Grow Init (nu (st a) + 2) in
          if g3 \<noteq> VLONG_SUCCESS then Some (g3, st) else
          let (g4, x0) = Copy Init (st a) in
          if g4 \<noteq> VLONG_SUCCESS then Some (g4, st) else
          let (g5, y0) = Copy Init (st b) in
          if g5 \<noteq> VLONG_SUCCESS then Some (g5, st) else
          let x1 = x0\<lparr> s := MP_ZPOS \<rparr>;
              y1 = y0\<lparr> s := MP_ZPOS \<rparr>;
              norm0 = GetNumBits y1 mod BiD;
              norm = (if norm0 < BiD - 1 then (BiD - 1) - norm0 else 0);
              (g6, x2) = (if norm0 < BiD - 1 then ShiftLeft x1 This (int norm) else (VLONG_SUCCESS, x1)) in
          if g6 \<noteq> VLONG_SUCCESS then Some (g6, st) else
          let (g7, y2) = (if norm0 < BiD - 1 then ShiftLeft y1 This (int norm) else (VLONG_SUCCESS, y1)) in
          if g7 \<noteq> VLONG_SUCCESS then Some (g7, st) else
          let n = nu x2 - 1;
              t = nu y2 - 1;
              (g8, y3) = prvLeftShiftDigits y2 (n - t) in
          if g8 \<noteq> VLONG_SUCCESS then Some (g8, st) else
          do {
            (g9, q2a, x3) \<leftarrow> divbig_while q1 x2 y3 (n - t);
            if g9 \<noteq> VLONG_SUCCESS then Some (g9, st) else do {
            (g10, q3, x4, t1', t2') \<leftarrow>
               divbig_for (prvRightShiftDigits y3 (n - t)) t (rev [t + 1..<n + 1]) (q2a, x3, t1, t2);
            if g10 \<noteq> VLONG_SUCCESS then Some (g10, st) else
            let st1 = (case q2 of None \<Rightarrow> st
                       | Some pq \<Rightarrow> st(pq := (fst (swap (st pq) (Clamp q3)))\<lparr> s := sign \<rparr>))
            in (case r of
                  None \<Rightarrow> Some (VLONG_SUCCESS, st1)
                | Some pr \<Rightarrow>
                    (let (g11, x5) = ShiftRight x4 This (int norm) in
                     if g11 \<noteq> VLONG_SUCCESS then Some (g11, st1)
                     else
                       let st2 = st1(pr := fst (swap (st1 pr) x5))
                       in Some (VLONG_SUCCESS, st2(pr := (st2 pr)\<lparr> s := s (st2 a) \<rparr>))))
          }})"

text \<open>
  The public long division and modulus. In the store handed to \<^verbatim>\<open>prvDivBig\<close> the
  receiver lives at address 0, the operands at 1 and 2 unless they are the receiver,
  and the remainder object of \<^verbatim>\<open>Div\<close> at 3.
\<close>

definition addr_of :: "operand \<Rightarrow> nat \<Rightarrow> nat" where
  "addr_of a p = (case a of This \<Rightarrow> 0 | Obj v \<Rightarrow> p)"

definition mk_store :: "vlong \<Rightarrow> operand \<Rightarrow> operand \<Rightarrow> vlong \<Rightarrow> store" where
  "mk_store this a b rv = (\<lambda>_. Init)(0 := this, 1 := arg this a, 2 := arg this b, 3 := rv)"

text \<open>\<^verbatim>\<open>Div(a, b, r)\<close>: the status, the receiver (quotient) and the remainder object
  afterwards; \<open>r = None\<close> is \<^verbatim>\<open>NULL\<close>.\<close>

definition DivV :: "vlong \<Rightarrow> operand \<Rightarrow> operand \<Rightarrow> vlong option \<Rightarrow> (status \<times> vlong \<times> vlong option) option"
  where
  "DivV this a b r =
     map_option (\<lambda>(ret, st'). (ret, st' 0, map_option (\<lambda>_. st' 3) r))
       (prvDivBig (mk_store this a b (case r of None \<Rightarrow> Init | Some rv \<Rightarrow> rv))
          (addr_of a 1) (addr_of b 2) (Some 0) (map_option (\<lambda>_. 3) r))"

text \<open>\<^verbatim>\<open>Mod(a, b)\<close> on two vlongs: a zero divisor gives zero and success.\<close>

definition ModV :: "vlong \<Rightarrow> operand \<Rightarrow> operand \<Rightarrow> (status \<times> vlong) option" where
  "ModV this a b =
     (if nu (arg this b) = 0 then Some (VLONG_SUCCESS, SetZero this)
      else map_option (\<lambda>(ret, st'). (ret, st' 0))
             (prvDivBig (mk_store this a b Init) (addr_of a 1) (addr_of b 2) None (Some 0)))"

text \<open>\<^verbatim>\<open>MulMod(a, b, n)\<close>.\<close>

definition MulMod :: "vlong \<Rightarrow> operand \<Rightarrow> operand \<Rightarrow> vlong \<Rightarrow> (status \<times> vlong) option" where
  "MulMod this a b n =
     do {
       (r1, t1) \<leftarrow> Mul this a b 0;
       if r1 \<noteq> VLONG_SUCCESS then Some (r1, t1) else ModV t1 This (Obj n)
     }"

section \<open>Modular reductions\<close>

text \<open>\<^verbatim>\<open>prv2Expt(b)\<close>: the receiver becomes \<open>2 ^ b\<close>.\<close>

definition prv2Expt :: "vlong \<Rightarrow> nat \<Rightarrow> status \<times> vlong" where
  "prv2Expt this b =
     (let (r, t) = Grow (SetZero this) (b div BiD + 1) in
      if r \<noteq> VLONG_SUCCESS then (r, t)
      else (VLONG_SUCCESS,
            t\<lparr> nu := b div BiD + 1, d := (d t)[b div BiD := push_bit (b mod BiD) 1] \<rparr>))"

text \<open>\<^verbatim>\<open>prvReduceBarrettSetup(n, mu)\<close>: \<open>mu\<close> is both the dividend and the
  quotient object of \<^verbatim>\<open>prvDivBig\<close> (address 0; \<open>n\<close> is at address 1).\<close>

definition prvReduceBarrettSetup :: "vlong \<Rightarrow> vlong \<Rightarrow> (status \<times> vlong) option" where
  "prvReduceBarrettSetup n mu =
     (let (r, mu1) = prv2Expt mu (nu n * 2 * BiD) in
      if r \<noteq> VLONG_SUCCESS then Some (r, mu1)
      else map_option (\<lambda>(ret, st'). (ret, st' 0))
             (prvDivBig ((\<lambda>_. Init)(0 := mu1, 1 := n)) 0 1 (Some 0) None))"

text \<open>\<^verbatim>\<open>prvMod2d(a, b)\<close>; \<open>b\<close> is an \<^verbatim>\<open>int\<close>.\<close>

definition prvMod2d :: "vlong \<Rightarrow> operand \<Rightarrow> int \<Rightarrow> status \<times> vlong" where
  "prvMod2d this a b =
     (if b \<le> 0 then (VLONG_SUCCESS, SetZero this)
      else if b \<ge> int (nu (arg this a) * BiD) then Copy this (arg this a)
      else
        let (r0, t0) = (if a \<noteq> This then Copy this (arg this a) else (VLONG_SUCCESS, this)) in
        if r0 \<noteq> VLONG_SUCCESS then (r0, t0)
        else
          let bn = nat b;
              xs = map (\<lambda>i. if (bn + BiD - 1) div BiD \<le> i \<and> i < nu t0 then 0 else dg (d t0) i)
                     [0..<length (d t0)];
              m = push_bit (bn mod BiD) (1 :: udig_t) - 1
          in (VLONG_SUCCESS, Clamp (t0\<lparr> d := xs[bn div BiD := dg xs (bn div BiD) AND m] \<rparr>)))"

text \<open>The final loop \<^verbatim>\<open>while (x->Compare(n) == MP_GT) x->Sub(*x, n)\<close> of
  \<^verbatim>\<open>prvReduceBarrett\<close>.\<close>

partial_function (option) barrett_while :: "vlong \<Rightarrow> vlong \<Rightarrow> (status \<times> vlong) option" where
  "barrett_while x n =
     (if CompareV x n = MP_GT then
        (let (r, x') = SubV x This (Obj n) in
         if r \<noteq> VLONG_SUCCESS then Some (r, x') else barrett_while x' n)
      else Some (VLONG_SUCCESS, x))"

declare barrett_while.simps [code]

text \<open>
  \<^verbatim>\<open>prvReduceBarrett(x, n, mu)\<close>: the status and \<open>x\<close> afterwards. A failed
  \<^verbatim>\<open>assert\<close> aborts the program, which is no result (\<open>None\<close>). \<open>um - 1\<close> is
  computed in \<^verbatim>\<open>size_t\<close> and wraps for \<open>um = 0\<close>.
\<close>

definition prvReduceBarrett :: "vlong \<Rightarrow> vlong \<Rightarrow> vlong \<Rightarrow> (status \<times> vlong) option" where
  "prvReduceBarrett x n mu =
     (let um = nu n in
      if \<not> (nu x < nu n * 2 + 1) then None
      else
        let (r0, q0) = Copy Init x in
        if r0 \<noteq> VLONG_SUCCESS then Some (r0, x)
        else
          let q1 = prvRightShiftDigits q0 (if um = 0 then 2 ^ 64 - 1 else um - 1) in
          do {
            (r1, q2) \<leftarrow> Mul q1 This (Obj mu) 0;
            if r1 \<noteq> VLONG_SUCCESS then Some (r1, x) else
            let q3 = prvRightShiftDigits q2 (um + 1);
                (r2, x1) = prvMod2d x This (int (BiD * (um + 1))) in
            if r2 \<noteq> VLONG_SUCCESS then Some (r2, x1) else do {
            (r3, q4) \<leftarrow> Mul q3 This (Obj n) (um + 1);
            if r3 \<noteq> VLONG_SUCCESS then Some (r3, x1) else
            let (r4, x2) = SubV x1 This (Obj q4) in
            if r4 \<noteq> VLONG_SUCCESS then Some (r4, x2) else
            if s x2 = MP_NEG \<and> nu x2 > 0 then
              (let (r5, q5) = SetValue q4 1 in
               if r5 \<noteq> VLONG_SUCCESS then Some (r5, x2) else
               let (r6, q6) = prvLeftShiftDigits q5 (um + 1) in
               if r6 \<noteq> VLONG_SUCCESS then Some (r6, x2) else
               let (r7, x3) = AddV x2 This (Obj q6) in
               if r7 \<noteq> VLONG_SUCCESS then Some (r7, x3) else barrett_while x3 n)
            else barrett_while x2 n
          }})"

text \<open>\<^verbatim>\<open>prvReduceMontgomerySetup(n, &rho)\<close> for 32-bit digits: \<open>Inl\<close> the error,
  \<open>Inr\<close> the value of \<open>rho\<close>.\<close>

definition prvReduceMontgomerySetup :: "vlong \<Rightarrow> status + udig_t" where
  "prvReduceMontgomerySetup n =
     (let b = dg (d n) 0 in
      if b AND 1 = 0 then Inl VLONG_ERR_BAD_ARG_1
      else
        let x0 = push_bit 1 ((b + 2) AND 4) + b;
            x1 = x0 * (2 - b * x0);
            x2 = x1 * (2 - b * x1);
            x3 = x2 * (2 - b * x2)
        in Inr (NOT x3 + 1))"

text \<open>The carry loop \<^verbatim>\<open>while (u) { ... j++; }\<close> of \<^verbatim>\<open>prvReduceMontgomery\<close> at
  position \<open>k = i + j\<close>.\<close>

partial_function (option) mont_carry :: "udig_t list \<Rightarrow> nat \<Rightarrow> udig_t \<Rightarrow> udig_t list option" where
  "mont_carry xs k u =
     (if u \<noteq> 0 then
        (let r = (ucast (dg xs k) :: uwrd_t) + ucast u
         in mont_carry (xs[k := ucast (r AND ucast MP_MASK_DIG)]) (k + 1) (ucast (drop_bit BiD r)))
      else Some xs)"

declare mont_carry.simps [code]

fun mont_inner :: "udig_t list \<Rightarrow> udig_t \<Rightarrow> udig_t list \<Rightarrow> nat \<Rightarrow> nat list \<Rightarrow> udig_t
    \<Rightarrow> udig_t list \<times> udig_t" where
  "mont_inner xs mu nd i [] u = (xs, u)"
| "mont_inner xs mu nd i (j # js) u =
     (let r = (ucast mu :: uwrd_t) * ucast (dg nd j) + ucast u + ucast (dg xs (i + j))
      in mont_inner (xs[i + j := ucast (r AND ucast MP_MASK_DIG)]) mu nd i js
           (ucast (drop_bit BiD r)))"

fun mont_outer :: "udig_t list \<Rightarrow> udig_t list \<Rightarrow> nat \<Rightarrow> udig_t \<Rightarrow> nat list \<Rightarrow> udig_t list option"
  where
  "mont_outer xs nd k rho [] = Some xs"
| "mont_outer xs nd k rho (i # is) =
     (let mu = (ucast ((ucast (dg xs i) :: uwrd_t) * ucast rho AND ucast MP_MASK_DIG) :: udig_t);
          (xs1, u) = mont_inner xs mu nd i [0..<k] 0
      in case mont_carry xs1 (i + k) u of
           None \<Rightarrow> None
         | Some xs2 \<Rightarrow> mont_outer xs2 nd k rho is)"

text \<open>\<^verbatim>\<open>prvReduceMontgomery(x, n, rho)\<close>: the status and \<open>x\<close> afterwards.\<close>

definition prvReduceMontgomery :: "vlong \<Rightarrow> vlong \<Rightarrow> udig_t \<Rightarrow> (status \<times> vlong) option" where
  "prvReduceMontgomery x n rho =
     (let digs = nu n * 2 + 1;
          (r0, x0) = Grow x digs in
      if r0 \<noteq> VLONG_SUCCESS then Some (r0, x0)
      else
        case mont_outer (d x0) (d n) (nu n) rho [0..<nu n] of
          None \<Rightarrow> None
        | Some xs \<Rightarrow>
            (let x1 = prvRightShiftDigits (Clamp (x0\<lparr> nu := digs, d := xs \<rparr>)) (nu n) in
             if CompareMag x1 n = MP_GT then Some (prvSubMag x1 This (Obj n))
             else Some (VLONG_SUCCESS, x1)))"

text \<open>The loop of \<^verbatim>\<open>prvMontgomeryNorm\<close>, run \<open>cnt\<close> times.\<close>

fun montnorm_loop :: "vlong \<Rightarrow> vlong \<Rightarrow> nat \<Rightarrow> status \<times> vlong" where
  "montnorm_loop a b 0 = (VLONG_SUCCESS, a)"
| "montnorm_loop a b (Suc cnt) =
     (let (r1, a1) = prvMulDig a This 2 in
      if r1 \<noteq> VLONG_SUCCESS then (r1, a1)
      else if CompareMag a1 b = MP_GT then
        (let (r2, a2) = SubV a1 This (Obj b) in
         if r2 \<noteq> VLONG_SUCCESS then (r2, a2) else montnorm_loop a2 b cnt)
      else montnorm_loop a1 b cnt)"

text \<open>\<^verbatim>\<open>prvMontgomeryNorm(a, b)\<close>: \<open>a\<close> becomes \<open>R mod b\<close>. The loop runs for
  \<open>i = bits - 1, ..., BiD - 1\<close>.\<close>

definition prvMontgomeryNorm :: "vlong \<Rightarrow> vlong \<Rightarrow> status \<times> vlong" where
  "prvMontgomeryNorm a b =
     (let bits0 = int (GetNumBits b mod BiD);
          (r, a1) = (if nu b > 1 then prv2Expt a (nat (int ((nu b - 1) * BiD) + bits0 - 1))
                     else SetValue a 1);
          bits = (if nu b > 1 then bits0 else 1)
      in if r \<noteq> VLONG_SUCCESS then (r, a1)
         else montnorm_loop a1 b (nat (int BiD - (bits - 1))))"

text \<open>\<^verbatim>\<open>prvIsDrModulus()\<close>.\<close>

definition prvIsDrModulus :: "vlong \<Rightarrow> bool" where
  "prvIsDrModulus this =
     (if nu this = 0 then False
      else if nu this = 1 then True
      else length (filter (\<lambda>i. dg (d this) i = MP_MASK_DIG) [0..<nu this]) \<ge> nu this div 2)"

text \<open>\<^verbatim>\<open>prvReduceDRSetup(n, mu)\<close>.\<close>

definition prvReduceDRSetup :: "vlong \<Rightarrow> vlong \<Rightarrow> status \<times> vlong" where
  "prvReduceDRSetup n mu =
     (let (r, tmp1) = prv2Expt Init (GetNumBits n) in
      if r \<noteq> VLONG_SUCCESS then (r, mu) else SubV mu (Obj tmp1) (Obj n))"

text \<open>The loop of \<^verbatim>\<open>prvReduceDR\<close> on the local \<open>q\<close> and the object \<open>x\<close>.\<close>

partial_function (option) dr_loop :: "vlong \<Rightarrow> vlong \<Rightarrow> vlong \<Rightarrow> vlong \<Rightarrow> nat \<Rightarrow> (status \<times> vlong) option"
  where
  "dr_loop q x n mu p =
     (let (r1, q1, xo) = prvDivPow2 q (Obj x) p RSame;
          x1 = (case xo of Some v \<Rightarrow> v | None \<Rightarrow> x)
      in
      if r1 \<noteq> VLONG_SUCCESS then Some (r1, x1)
      else
        case Mul q1 This (Obj mu) 0 of
          None \<Rightarrow> None
        | Some (r2, q2) \<Rightarrow>
            if r2 \<noteq> VLONG_SUCCESS then Some (r2, x1)
            else
              let (r3, x2) = prvAddMag x1 This (Obj q2) in
              if r3 \<noteq> VLONG_SUCCESS then Some (r3, x2)
              else if CompareMag x2 n = MP_GT then
                (let (r4, x3) = SubV x2 This (Obj n) in
                 if r4 \<noteq> VLONG_SUCCESS then Some (r4, x3) else dr_loop q2 x3 n mu p)
              else Some (VLONG_SUCCESS, x2))"

declare dr_loop.simps [code]

definition prvReduceDR :: "vlong \<Rightarrow> vlong \<Rightarrow> vlong \<Rightarrow> (status \<times> vlong) option" where
  "prvReduceDR x n mu = dr_loop Init x n mu (GetNumBits n)"

text \<open>
  The three public reductions \<^verbatim>\<open>ModBarrett\<close>, \<^verbatim>\<open>ModMontgomery\<close> and
  \<^verbatim>\<open>ModDRExt\<close> of \<open>a\<close> by the modulus \<open>b\<close> (an object other than the receiver).
\<close>

definition ModBarrett :: "vlong \<Rightarrow> operand \<Rightarrow> vlong \<Rightarrow> (status \<times> vlong) option" where
  "ModBarrett this a b =
     do {
       (r0, mu) \<leftarrow> prvReduceBarrettSetup b Init;
       if r0 \<noteq> VLONG_SUCCESS then Some (r0, this) else
       let (r1, t1) = (if a \<noteq> This then Copy this (arg this a) else (VLONG_SUCCESS, this)) in
       if r1 \<noteq> VLONG_SUCCESS then Some (r1, t1) else prvReduceBarrett t1 b mu
     }"

definition ModMontgomery :: "vlong \<Rightarrow> operand \<Rightarrow> vlong \<Rightarrow> (status \<times> vlong) option" where
  "ModMontgomery this a b =
     (case prvReduceMontgomerySetup b of
        Inl e \<Rightarrow> Some (e, this)
      | Inr rho \<Rightarrow>
          (let (r1, t1) = (if a \<noteq> This then Copy this (arg this a) else (VLONG_SUCCESS, this)) in
           if r1 \<noteq> VLONG_SUCCESS then Some (r1, t1) else prvReduceMontgomery t1 b rho))"

definition ModDRExt :: "vlong \<Rightarrow> operand \<Rightarrow> vlong \<Rightarrow> (status \<times> vlong) option" where
  "ModDRExt this a b =
     (let (r0, mu) = prvReduceDRSetup b Init in
      if r0 \<noteq> VLONG_SUCCESS then Some (r0, this) else
      let (r1, t1) = (if a \<noteq> This then Copy this (arg this a) else (VLONG_SUCCESS, this)) in
      if r1 \<noteq> VLONG_SUCCESS then Some (r1, t1) else prvReduceDR t1 b mu)"

section \<open>GCD family\<close>

text \<open>Low bit of a vlong's lowest digit, \<^verbatim>\<open>(v.d[0] & 1)\<close>.\<close>

definition low_bit :: "vlong \<Rightarrow> udig_t" where
  "low_bit v = dg (d v) 0 AND 1"

text \<open>The loop of \<^verbatim>\<open>GCDExtBin\<close> that strips the common factors of two.\<close>

partial_function (option) gcd_strip2 :: "vlong \<Rightarrow> vlong \<Rightarrow> nat \<Rightarrow> (status \<times> vlong \<times> vlong \<times> nat) option"
  where
  "gcd_strip2 ta tb tg =
     (if low_bit ta = 0 \<and> low_bit tb = 0 then
        (let (r1, ta1) = ShiftRight ta This 1 in
         if r1 \<noteq> VLONG_SUCCESS then Some (r1, ta1, tb, tg) else
         let (r2, tb1) = ShiftRight tb This 1 in
         if r2 \<noteq> VLONG_SUCCESS then Some (r2, ta1, tb1, tg) else
         gcd_strip2 ta1 tb1 (tg + 1))
      else Some (VLONG_SUCCESS, ta, tb, tg))"

declare gcd_strip2.simps [code]

text \<open>The two inner loops halve \<open>tu\<close> (with \<open>u1, u2\<close>) and \<open>tv\<close> (with \<open>v1, v2\<close>)
  while they are even; both have the same body.\<close>

partial_function (option) gcd_halve :: "vlong \<Rightarrow> vlong \<Rightarrow> vlong \<Rightarrow> vlong \<Rightarrow> vlong
    \<Rightarrow> (status \<times> vlong \<times> vlong \<times> vlong) option" where
  "gcd_halve ta tb tu u1 u2 =
     (if low_bit tu = 0 then
        (let (r1, tu1) = ShiftRight tu This 1 in
         if r1 \<noteq> VLONG_SUCCESS then Some (r1, tu1, u1, u2) else
         let (r2, u1a, u2a) =
               (if low_bit u1 \<noteq> 0 \<or> low_bit u2 \<noteq> 0 then
                  (let (q1, w1) = AddV u1 This (Obj tb) in
                   if q1 \<noteq> VLONG_SUCCESS then (q1, w1, u2) else
                   let (q2, w2) = SubV u2 This (Obj ta) in (q2, w1, w2))
                else (VLONG_SUCCESS, u1, u2)) in
         if r2 \<noteq> VLONG_SUCCESS then Some (r2, tu1, u1a, u2a) else
         let (r3, u1b) = ShiftRight u1a This 1 in
         if r3 \<noteq> VLONG_SUCCESS then Some (r3, tu1, u1b, u2a) else
         let (r4, u2b) = ShiftRight u2a This 1 in
         if r4 \<noteq> VLONG_SUCCESS then Some (r4, tu1, u1b, u2b) else
         gcd_halve ta tb tu1 u1b u2b)
      else Some (VLONG_SUCCESS, tu, u1, u2))"

declare gcd_halve.simps [code]

text \<open>The outer \<^verbatim>\<open>do { ... } while (tu.nu != 0)\<close> loop on
  \<open>(tu, u1, u2, tv, v1, v2)\<close>.\<close>

partial_function (option) gcd_main :: "vlong \<Rightarrow> vlong \<Rightarrow> vlong \<Rightarrow> vlong \<Rightarrow> vlong \<Rightarrow> vlong \<Rightarrow> vlong \<Rightarrow> vlong
    \<Rightarrow> (status \<times> vlong \<times> vlong \<times> vlong) option" where
  "gcd_main ta tb tu u1 u2 tv v1 v2 =
     do {
       (r1, tu1, u1a, u2a) \<leftarrow> gcd_halve ta tb tu u1 u2;
       if r1 \<noteq> VLONG_SUCCESS then Some (r1, tv, v1, v2) else do {
       (r2, tv1, v1a, v2a) \<leftarrow> gcd_halve ta tb tv v1 v2;
       if r2 \<noteq> VLONG_SUCCESS then Some (r2, tv1, v1a, v2a) else
       if CompareMag tu1 tv1 \<ge> 0 then
         (let (q1, tu2) = SubV tu1 This (Obj tv1) in
          if q1 \<noteq> VLONG_SUCCESS then Some (q1, tv1, v1a, v2a) else
          let (q2, u1b) = SubV u1a This (Obj v1a) in
          if q2 \<noteq> VLONG_SUCCESS then Some (q2, tv1, v1a, v2a) else
          let (q3, u2b) = SubV u2a This (Obj v2a) in
          if q3 \<noteq> VLONG_SUCCESS then Some (q3, tv1, v1a, v2a) else
          if nu tu2 \<noteq> 0 then gcd_main ta tb tu2 u1b u2b tv1 v1a v2a
          else Some (VLONG_SUCCESS, tv1, v1a, v2a))
       else
         (let (q1, tv2) = SubV tv1 This (Obj tu1) in
          if q1 \<noteq> VLONG_SUCCESS then Some (q1, tv2, v1a, v2a) else
          let (q2, v1b) = SubV v1a This (Obj u1a) in
          if q2 \<noteq> VLONG_SUCCESS then Some (q2, tv2, v1b, v2a) else
          let (q3, v2b) = SubV v2a This (Obj u2a) in
          if q3 \<noteq> VLONG_SUCCESS then Some (q3, tv2, v1b, v2b) else
          if nu tu1 \<noteq> 0 then gcd_main ta tb tu1 u1a u2a tv2 v1b v2b
          else Some (VLONG_SUCCESS, tv2, v1b, v2b))
     }}"

declare gcd_main.simps [code]

text \<open>
  \<^verbatim>\<open>GCDExtBin(a, b, pY1, pY2)\<close>: the status, the receiver (the gcd) and the two
  cofactor objects afterwards (each passed as \<open>None\<close> for \<^verbatim>\<open>NULL\<close>).
\<close>

definition GCDExtBin :: "vlong \<Rightarrow> vlong \<Rightarrow> vlong \<Rightarrow> vlong option \<Rightarrow> vlong option
    \<Rightarrow> (status \<times> vlong \<times> vlong option \<times> vlong option) option" where
  "GCDExtBin this a b pY1 pY2 =
     (if nu a = 0 \<or> nu b = 0 then
        (let (r1, y1) = (case pY1 of None \<Rightarrow> (VLONG_SUCCESS, None)
                         | Some v \<Rightarrow> (let (r, v') = SetValue v 1 in (r, Some v'))) in
         if r1 \<noteq> VLONG_SUCCESS then Some (r1, this, y1, pY2) else
         let (r2, y2) = (case pY2 of None \<Rightarrow> (VLONG_SUCCESS, None)
                         | Some v \<Rightarrow> (let (r, v') = SetValue v 0 in (r, Some v'))) in
         if r2 \<noteq> VLONG_SUCCESS then Some (r2, this, y1, y2) else
         let (r3, t) = SetValue this 0 in Some (r3, t, y1, y2))
      else
        let (c1, ta0) = Copy Init a in
        if c1 \<noteq> VLONG_SUCCESS then Some (c1, this, pY1, pY2) else
        let (c2, tb0) = Copy Init b in
        if c2 \<noteq> VLONG_SUCCESS then Some (c2, this, pY1, pY2) else
        do {
          (r0, ta, tb, tg) \<leftarrow> gcd_strip2 ta0 tb0 0;
          if r0 \<noteq> VLONG_SUCCESS then Some (r0, this, pY1, pY2) else
          let (c3, tu) = Copy Init ta in
          if c3 \<noteq> VLONG_SUCCESS then Some (c3, this, pY1, pY2) else
          let (c4, tv) = Copy Init tb in
          if c4 \<noteq> VLONG_SUCCESS then Some (c4, this, pY1, pY2) else
          let (c5, u1) = SetValue Init 1 in
          if c5 \<noteq> VLONG_SUCCESS then Some (c5, this, pY1, pY2) else
          let (c6, u2) = SetValue Init 0 in
          if c6 \<noteq> VLONG_SUCCESS then Some (c6, this, pY1, pY2) else
          let (c7, v1) = SetValue Init 0 in
          if c7 \<noteq> VLONG_SUCCESS then Some (c7, this, pY1, pY2) else
          let (c8, v2) = SetValue Init 1 in
          if c8 \<noteq> VLONG_SUCCESS then Some (c8, this, pY1, pY2) else do {
          (r1, tv', v1', v2') \<leftarrow> gcd_main ta tb tu u1 u2 tv v1 v2;
          if r1 \<noteq> VLONG_SUCCESS then Some (r1, this, pY1, pY2) else
          let y1 = map_option (\<lambda>v. fst (swap v v1')) pY1;
              y2 = map_option (\<lambda>v. fst (swap v v2')) pY2;
              (r2, t1) = Copy this tv' in
          if r2 \<noteq> VLONG_SUCCESS then Some (r2, t1, y1, y2) else
          if tg > 0 then (let (r3, t2) = ShiftLeft t1 This (int tg) in Some (r3, t2, y1, y2))
          else Some (VLONG_SUCCESS, t1, y1, y2)
        }})"

text \<open>\<^verbatim>\<open>InvMod(a, n)\<close>.\<close>

definition InvMod :: "vlong \<Rightarrow> vlong \<Rightarrow> vlong \<Rightarrow> (status \<times> vlong) option" where
  "InvMod this a n =
     (if s a = MP_NEG \<or> s n = MP_NEG then Some (VLONG_ERR_NEGATIVE_ARG, this)
      else
        do {
          (r, gcd, y1, y2) \<leftarrow> GCDExtBin Init a n (Some Init) None;
          if r \<noteq> VLONG_SUCCESS then Some (r, this)
          else if nu gcd = 1 \<and> dg (d gcd) 0 = 1
          then Some (VLONG_SUCCESS, case y1 of Some v \<Rightarrow> fst (swap this v) | None \<Rightarrow> this)
          else Some (VLONG_ERR_NO_INVERSE, this)
        })"

section \<open>Modular exponentiation\<close>

text \<open>The window size chosen from the bit length of the exponent.\<close>

definition winsize_of :: "nat \<Rightarrow> nat" where
  "winsize_of x =
     (if x \<le> 7 then 2 else if x \<le> 36 then 3 else if x \<le> 140 then 4 else if x \<le> 450 then 5
      else if x \<le> 1303 then 6 else if x \<le> 3529 then 7 else 8)"

text \<open>
  The bits of the exponent in the order in which the main loop reads them through
  \<open>(digidx, buf, bitcnt)\<close>: the used digits from the top one down, each from bit
  \<open>BiD - 1\<close> down to bit 0.
\<close>

definition exp_bits :: "vlong \<Rightarrow> bool list" where
  "exp_bits e = concat (map (\<lambda>i. map (\<lambda>k. bit (dg (d e) i) k) (rev [0..<BiD])) (rev [0..<nu e]))"

text \<open>\<open>res = res * res; redux(res)\<close>, \<open>cnt\<close> times.\<close>

fun sqr_redux :: "(vlong \<Rightarrow> (status \<times> vlong) option) \<Rightarrow> nat \<Rightarrow> vlong \<Rightarrow> (status \<times> vlong) option"
  where
  "sqr_redux redux 0 res = Some (VLONG_SUCCESS, res)"
| "sqr_redux redux (Suc cnt) res =
     do {
       (r1, res1) \<leftarrow> Mul res This This 0;
       if r1 \<noteq> VLONG_SUCCESS then Some (r1, res1) else do {
       (r2, res2) \<leftarrow> redux res1;
       if r2 \<noteq> VLONG_SUCCESS then Some (r2, res2) else sqr_redux redux cnt res2
     }}"

text \<open>\<open>res = m * res; redux(res)\<close>.\<close>

definition mul_redux :: "(vlong \<Rightarrow> (status \<times> vlong) option) \<Rightarrow> vlong \<Rightarrow> vlong \<Rightarrow> (status \<times> vlong) option"
  where
  "mul_redux redux m res =
     do {
       (r1, res1) \<leftarrow> Mul res (Obj m) This 0;
       if r1 \<noteq> VLONG_SUCCESS then Some (r1, res1) else redux res1
     }"

text \<open>
  The main loop of the two exponentiation functions (the same text in both), on the
  state \<open>(mode, bitcpy, bitbuf, res)\<close>, one round per exponent bit \<open>y\<close>.
\<close>

fun pm_scan :: "(vlong \<Rightarrow> (status \<times> vlong) option) \<Rightarrow> (nat \<Rightarrow> vlong) \<Rightarrow> nat \<Rightarrow> bool list
    \<Rightarrow> nat \<times> nat \<times> nat \<times> vlong \<Rightarrow> (status \<times> nat \<times> nat \<times> nat \<times> vlong) option" where
  "pm_scan redux M winsize [] st = Some (VLONG_SUCCESS, st)"
| "pm_scan redux M winsize (y # ys) st =
     (let (mode, bitcpy, bitbuf, res) = st in
      if mode = 0 \<and> \<not> y then pm_scan redux M winsize ys st
      else if mode = 1 \<and> \<not> y then
        do {
          (r, res1) \<leftarrow> sqr_redux redux 1 res;
          if r \<noteq> VLONG_SUCCESS then Some (r, mode, bitcpy, bitbuf, res1)
          else pm_scan redux M winsize ys (mode, bitcpy, bitbuf, res1)
        }
      else
        let bitcpy1 = bitcpy + 1;
            bitbuf1 = bitbuf OR (if y then 2 ^ (winsize - bitcpy1) else 0)
        in
        if bitcpy1 = winsize then
          do {
            (r1, res1) \<leftarrow> sqr_redux redux winsize res;
            if r1 \<noteq> VLONG_SUCCESS then Some (r1, 2, bitcpy1, bitbuf1, res1) else do {
            (r2, res2) \<leftarrow> mul_redux redux (M bitbuf1) res1;
            if r2 \<noteq> VLONG_SUCCESS then Some (r2, 2, bitcpy1, bitbuf1, res2)
            else pm_scan redux M winsize ys (1, 0, 0, res2)
          }}
        else pm_scan redux M winsize ys (2, bitcpy1, bitbuf1, res))"

text \<open>The tail \<^verbatim>\<open>if (mode == 2 && bitcpy > 0)\<close>: square, and multiply where the
  window's next bit is set.\<close>

fun pm_tail :: "(vlong \<Rightarrow> (status \<times> vlong) option) \<Rightarrow> vlong \<Rightarrow> nat \<Rightarrow> nat \<Rightarrow> nat \<Rightarrow> vlong
    \<Rightarrow> (status \<times> vlong) option" where
  "pm_tail redux m1 winsize 0 bitbuf res = Some (VLONG_SUCCESS, res)"
| "pm_tail redux m1 winsize (Suc cnt) bitbuf res =
     do {
       (r1, res1) \<leftarrow> sqr_redux redux 1 res;
       if r1 \<noteq> VLONG_SUCCESS then Some (r1, res1) else
       let bitbuf1 = bitbuf * 2 in
       if bitbuf1 AND (2 ^ winsize) \<noteq> 0 then
         do {
           (r2, res2) \<leftarrow> mul_redux redux m1 res1;
           if r2 \<noteq> VLONG_SUCCESS then Some (r2, res2)
           else pm_tail redux m1 winsize cnt bitbuf1 res2
         }
       else pm_tail redux m1 winsize cnt bitbuf1 res1
     }"

text \<open>Building the table: \<open>M[2^(w-1)]\<close> from \<open>M[1]\<close> by \<open>w - 1\<close> squarings, then
  \<open>M[x] = M[x-1] * M[1]\<close> for the upper half.\<close>

fun pm_upper :: "(vlong \<Rightarrow> (status \<times> vlong) option) \<Rightarrow> (nat \<Rightarrow> vlong) \<Rightarrow> nat list
    \<Rightarrow> (status \<times> (nat \<Rightarrow> vlong)) option" where
  "pm_upper redux M [] = Some (VLONG_SUCCESS, M)"
| "pm_upper redux M (x # xs) =
     do {
       (r1, m1) \<leftarrow> Mul (M x) (Obj (M (x - 1))) (Obj (M 1)) 0;
       if r1 \<noteq> VLONG_SUCCESS then Some (r1, M(x := m1)) else do {
       (r2, m2) \<leftarrow> redux m1;
       if r2 \<noteq> VLONG_SUCCESS then Some (r2, M(x := m2)) else pm_upper redux (M(x := m2)) xs
     }}"

definition pm_table :: "(vlong \<Rightarrow> (status \<times> vlong) option) \<Rightarrow> vlong \<Rightarrow> nat
    \<Rightarrow> (status \<times> (nat \<Rightarrow> vlong)) option" where
  "pm_table redux m1 winsize =
     (let M0 = (\<lambda>_. Init)(1 := m1);
          h = 2 ^ (winsize - 1);
          (r0, mh0) = Copy (M0 h) m1 in
      if r0 \<noteq> VLONG_SUCCESS then Some (r0, M0)
      else
        do {
          (r1, mh) \<leftarrow> sqr_redux redux (winsize - 1) mh0;
          if r1 \<noteq> VLONG_SUCCESS then Some (r1, M0)
          else pm_upper redux (M0(h := mh)) [h + 1..<2 ^ winsize]
        })"

text \<open>The part shared by both functions from the table on: table, main loop, tail.
  The result is the status and \<open>res\<close>.\<close>

definition pm_run :: "(vlong \<Rightarrow> (status \<times> vlong) option) \<Rightarrow> vlong \<Rightarrow> vlong \<Rightarrow> vlong
    \<Rightarrow> (status \<times> vlong) option" where
  "pm_run redux m1 res0 e =
     (let winsize = winsize_of (GetNumBits e) in
      do {
        (r0, M) \<leftarrow> pm_table redux m1 winsize;
        if r0 \<noteq> VLONG_SUCCESS then Some (r0, res0) else do {
        (r1, mode, bitcpy, bitbuf, res1) \<leftarrow> pm_scan redux M winsize (exp_bits e) (0, 0, 0, res0);
        if r1 \<noteq> VLONG_SUCCESS then Some (r1, res1)
        else if mode = 2 \<and> bitcpy > 0 then pm_tail redux (M 1) winsize bitcpy bitbuf res1
        else Some (VLONG_SUCCESS, res1)
      }})"

text \<open>\<^verbatim>\<open>prvPowModBarrett(a, e, n, redmode)\<close>: Barrett (\<open>redmode = 0\<close>) or extended
  DR (\<open>redmode = 1\<close>) reduction. The receiver changes only in the final \<^verbatim>\<open>swap\<close>.\<close>

definition prvPowModBarrett :: "vlong \<Rightarrow> vlong \<Rightarrow> vlong \<Rightarrow> vlong \<Rightarrow> nat \<Rightarrow> (status \<times> vlong) option"
  where
  "prvPowModBarrett this a e n redmode =
     do {
       (r0, mu, redux) \<leftarrow>
          (if redmode = 0 then
             map_option (\<lambda>(r, mu). (r, mu, (\<lambda>x. prvReduceBarrett x n mu))) (prvReduceBarrettSetup n Init)
           else if redmode = 1 then
             (let (r, mu) = prvReduceDRSetup n Init in Some (r, mu, (\<lambda>x. prvReduceDR x n mu)))
           else Some (VLONG_ERR_BAD_ARG_4, Init, (\<lambda>x. None)));
       if r0 \<noteq> VLONG_SUCCESS then Some (r0, this) else do {
       (r1, m1) \<leftarrow> ModV Init (Obj a) (Obj n);
       if r1 \<noteq> VLONG_SUCCESS then Some (r1, this) else
       let (r2, res0) = SetValue Init 1 in
       if r2 \<noteq> VLONG_SUCCESS then Some (r2, this) else do {
       (r3, res) \<leftarrow> pm_run redux m1 res0 e;
       if r3 \<noteq> VLONG_SUCCESS then Some (r3, this) else Some (VLONG_SUCCESS, fst (swap this res))
     }}}"

text \<open>\<^verbatim>\<open>prvPowModMontgomery(a, e, n)\<close>.\<close>

definition prvPowModMontgomery :: "vlong \<Rightarrow> vlong \<Rightarrow> vlong \<Rightarrow> vlong \<Rightarrow> (status \<times> vlong) option"
  where
  "prvPowModMontgomery this a e n =
     (case prvReduceMontgomerySetup n of
        Inl err \<Rightarrow> Some (err, this)
      | Inr mp \<Rightarrow>
          (let (r0, res0) = prvMontgomeryNorm Init n in
           if r0 \<noteq> VLONG_SUCCESS then Some (r0, this) else
           do {
             (r1, m1) \<leftarrow> MulMod Init (Obj a) (Obj res0) n;
             if r1 \<noteq> VLONG_SUCCESS then Some (r1, this) else do {
             (r2, res1) \<leftarrow> pm_run (\<lambda>x. prvReduceMontgomery x n mp) m1 res0 e;
             if r2 \<noteq> VLONG_SUCCESS then Some (r2, this) else do {
             (r3, res2) \<leftarrow> prvReduceMontgomery res1 n mp;
             if r3 \<noteq> VLONG_SUCCESS then Some (r3, this)
             else Some (VLONG_SUCCESS, fst (swap this res2))
           }}}))"

text \<open>
  \<^verbatim>\<open>PowMod(a, e, n)\<close>. For a negative exponent the source inverts \<open>a\<close> into a
  temporary, copies \<open>e\<close> into another, and then calls itself on the original
  \<open>a\<close>, \<open>e\<close> and \<open>n\<close>. The engine is chosen by
  \<^verbatim>\<open>n.prvIsDrModulus()\<close> and then by the low bit of \<open>a.d[0]\<close>.
\<close>

partial_function (option) PowMod :: "vlong \<Rightarrow> vlong \<Rightarrow> vlong \<Rightarrow> vlong \<Rightarrow> (status \<times> vlong) option"
  where
  "PowMod this a e n =
     (if s n = MP_NEG then Some (VLONG_ERR_NEGATIVE_ARG, this)
      else if s e = MP_NEG then
        (case InvMod Init a n of
           None \<Rightarrow> None
         | Some (r1, tmpG) \<Rightarrow>
             if r1 \<noteq> VLONG_SUCCESS then Some (r1, this)
             else
               let (r2, tmpX) = Copy Init e in
               if r2 \<noteq> VLONG_SUCCESS then Some (r2, this)
               else PowMod this a e n)
      else if prvIsDrModulus n then prvPowModBarrett this a e n 1
      else if low_bit a = 1 then prvPowModMontgomery this a e n
      else prvPowModBarrett this a e n 0)"

declare PowMod.simps [code]

section \<open>Conversion from strings\<close>

text \<open>
  The alphabet argument \<^verbatim>\<open>szCustomChars\<close>: \<^verbatim>\<open>NULL\<close>, the pointer
  \<^verbatim>\<open>MP_DIG_CHARS\<close> itself (as \<^verbatim>\<open>FromString\<close> passes it), or a caller's string.
  A C string is a list of characters without its terminating NUL.
\<close>

datatype alpha = ANull | ADigChars | ACustom string

definition MP_DIG_CHARS :: string where
  "MP_DIG_CHARS = ''0123456789ABCDEF''"

text \<open>The default digit decoding: \<open>None\<close> stands for \<^verbatim>\<open>dig = -1\<close>.\<close>

definition dig_default :: "char \<Rightarrow> nat option" where
  "dig_default c =
     (let n = (of_char c :: nat) in
      if 48 \<le> n \<and> n \<le> 57 then Some (n - 48)
      else if 65 \<le> n \<and> n \<le> 70 then Some (n - 55)
      else if 97 \<le> n \<and> n \<le> 102 then Some (n - 87)
      else None)"

text \<open>\<^verbatim>\<open>strchr(pAlphabet, c)\<close> as an offset: the first position of \<open>c\<close>; the
  terminating NUL is found at the end.\<close>

fun strchr_pos :: "string \<Rightarrow> char \<Rightarrow> nat \<Rightarrow> nat option" where
  "strchr_pos [] c k = (if c = CHR 0x00 then Some k else None)"
| "strchr_pos (x # xs) c k = (if x = c then Some k else strchr_pos xs c (k + 1))"

text \<open>The digit of a character: \<open>in_default\<close> says whether the source takes the
  branch for the default alphabet; \<open>rd_limit\<close> is the radix to check against there
  (the radix-16 path does not check it).\<close>

definition decode_dig :: "bool \<Rightarrow> string \<Rightarrow> nat option \<Rightarrow> char \<Rightarrow> nat option" where
  "decode_dig in_default alphabet rd_limit c =
     (if in_default then
        (case dig_default c of
           None \<Rightarrow> None
         | Some dig \<Rightarrow> (case rd_limit of None \<Rightarrow> Some dig
                        | Some rd \<Rightarrow> if dig \<ge> rd then None else Some dig))
      else strchr_pos alphabet c 0)"

text \<open>The radix-16 loop, from the last character to the first; \<open>j\<close> counts the
  characters done.\<close>

fun hex_loop :: "bool \<Rightarrow> string \<Rightarrow> char list \<Rightarrow> nat \<Rightarrow> vlong \<Rightarrow> status \<times> vlong" where
  "hex_loop in_default alphabet [] j v = (VLONG_SUCCESS, v)"
| "hex_loop in_default alphabet (c # cs) j v =
     (let cd = j div (2 * CiD); cp = j mod (2 * CiD) in
      if c = CHR ''-'' then (VLONG_SUCCESS, v\<lparr> s := MP_NEG \<rparr>)
      else
        case decode_dig in_default alphabet None c of
          None \<Rightarrow> (VLONG_ERR_INVALID_CHAR, v)
        | Some dig \<Rightarrow>
            hex_loop in_default alphabet cs (j + 1)
              (v\<lparr> d := (d v)[cd := dg (d v) cd OR push_bit (cp * 4) (of_nat dig)],
                  nu := (if dig \<noteq> 0 then cd + 1 else nu v) \<rparr>))"

text \<open>The loop for the other radices, from the first character on. The results of
  \<^verbatim>\<open>Mul\<close>, \<^verbatim>\<open>Add\<close> and \<^verbatim>\<open>Sub\<close> are not checked.\<close>

fun radix_loop :: "bool \<Rightarrow> string \<Rightarrow> nat \<Rightarrow> char list \<Rightarrow> nat \<Rightarrow> vlong \<Rightarrow> (status \<times> vlong) option"
  where
  "radix_loop in_default alphabet rd [] i v = Some (VLONG_SUCCESS, v)"
| "radix_loop in_default alphabet rd (c # cs) i v =
     (if i = 0 \<and> c = CHR ''-'' then radix_loop in_default alphabet rd cs (i + 1) (v\<lparr> s := MP_NEG \<rparr>)
      else
        case decode_dig in_default alphabet (Some rd) c of
          None \<Rightarrow> Some (VLONG_ERR_INVALID_CHAR, v)
        | Some dig \<Rightarrow>
            (let v1 = snd (MulD v This (of_nat rd)) in
             case (if s v1 = MP_ZPOS then AddD v1 This (of_nat dig) else SubD v1 This (of_nat dig)) of
               None \<Rightarrow> None
             | Some (r, v2) \<Rightarrow> radix_loop in_default alphabet rd cs (i + 1) v2))"

text \<open>
  \<^verbatim>\<open>FromStringBuf(pBuf, nBufLen, nRadix, szCustomChars)\<close>; \<open>pBuf = None\<close> is
  \<^verbatim>\<open>NULL\<close>. The receiver is reset (\<open>nu = 0\<close>, sign +) before the first character
  is read.
\<close>

definition FromStringBuf :: "vlong \<Rightarrow> string option \<Rightarrow> nat \<Rightarrow> int \<Rightarrow> alpha \<Rightarrow> (status \<times> vlong) option"
  where
  "FromStringBuf this pBuf nBufLen nRadix szCustomChars =
     (case pBuf of
        None \<Rightarrow> Some (VLONG_ERR_BAD_ARG_1, this)
      | Some buf \<Rightarrow>
          (let rd0 = (if nRadix < 0 then nat (2 ^ 64 + nRadix) else nat nRadix);
               alphabet = (case szCustomChars of ACustom cs \<Rightarrow> cs | _ \<Rightarrow> MP_DIG_CHARS);
               is_dig_chars = (case szCustomChars of ACustom cs \<Rightarrow> False | _ \<Rightarrow> True);
               rd = (if szCustomChars \<noteq> ANull \<and> rd0 = 0 then length alphabet else rd0)
           in
           if rd < 2 \<or> rd > (if szCustomChars = ANull then 16 else 256)
           then Some (VLONG_ERR_BAD_ARG_3, this)
           else
             let len = (if nBufLen = 0 then length buf else nBufLen);
                 chars = map (\<lambda>i. if i < length buf then buf ! i else CHR 0x00) [0..<len];
                 b = 8 - (if rd < 256 then 1 else 0) - (if rd < 128 then 1 else 0)
                       - (if rd < 64 then 1 else 0) - (if rd < 32 then 1 else 0)
                       - (if rd < 16 then 1 else 0) - (if rd < 8 then 1 else 0)
                       - (if rd < 4 then 1 else (0 :: nat));
                 nNeeds = BITS_TO_DIGITS (b * len);
                 (r, t) = Grow (this\<lparr> nu := 0, s := MP_ZPOS \<rparr>) (nNeeds + 1)
             in
             if r \<noteq> VLONG_SUCCESS then Some (r, t)
             else if rd = 16 then
               (let (r1, t1) = hex_loop is_dig_chars alphabet (rev chars) 0 t in
                if r1 \<noteq> VLONG_SUCCESS then Some (r1, t1)
                else Some (VLONG_SUCCESS, if nu t1 = 0 then SetZero t1 else t1))
             else radix_loop (is_dig_chars \<and> rd \<le> 16) alphabet rd chars 0 t))"

text \<open>\<^verbatim>\<open>FromString(szNumber, radix)\<close>.\<close>

definition FromString :: "vlong \<Rightarrow> string option \<Rightarrow> int \<Rightarrow> (status \<times> vlong) option" where
  "FromString this szNumber radix =
     (if radix < 2 \<or> radix > 16 then Some (VLONG_ERR_BAD_ARG_2, this)
      else FromStringBuf this szNumber 0 radix ADigChars)"

section \<open>BASE64\<close>

definition base64_enc :: string where
  "base64_enc = ''ABCDEFGHIJKLMNOPQRSTUVWXYZabcdefghijklmnopqrstuvwxyz0123456789+/''"

text \<open>\<^verbatim>\<open>POS(c)\<close>: the value of a BASE64 character, -1 for the padding, -2 otherwise.\<close>

definition POS :: "char \<Rightarrow> int" where
  "POS c =
     (let n = (of_char c :: nat) in
      if 65 \<le> n \<and> n \<le> 90 then int n - 65
      else if 97 \<le> n \<and> n \<le> 122 then int n - 97 + 26
      else if 48 \<le> n \<and> n \<le> 57 then int n - 48 + 52
      else if c = CHR ''+'' then 62
      else if c = CHR ''/'' then 63
      else if c = CHR ''='' then - 1
      else - 2)"

text \<open>The encoding loop of \<^verbatim>\<open>ToBase64Buf\<close>: three bytes at a time, padding the last
  group.\<close>

definition enc_char :: "nat \<Rightarrow> char" where
  "enc_char k = base64_enc ! k"

text \<open>The four characters of one group; \<open>c\<close> is the \<^verbatim>\<open>int\<close> that collects three bytes.\<close>

definition enc1 :: "32 word \<Rightarrow> char" where "enc1 c = enc_char (unat (drop_bit 18 (c AND 0x00fc0000)))"
definition enc2 :: "32 word \<Rightarrow> char" where "enc2 c = enc_char (unat (drop_bit 12 (c AND 0x0003f000)))"
definition enc3 :: "32 word \<Rightarrow> char" where "enc3 c = enc_char (unat (drop_bit 6 (c AND 0x00000fc0)))"
definition enc4 :: "32 word \<Rightarrow> char" where "enc4 c = enc_char (unat (c AND 0x0000003f))"

fun b64_encode :: "8 word list \<Rightarrow> string" where
  "b64_encode [] = []"
| "b64_encode [b0] =
     (let c = ucast b0 * 256 * 256 in [enc1 c, enc2 c, CHR ''='', CHR ''=''])"
| "b64_encode [b0, b1] =
     (let c = (ucast b0 * 256 + ucast b1) * 256 in [enc1 c, enc2 c, enc3 c, CHR ''=''])"
| "b64_encode (b0 # b1 # b2 # bs) =
     (let c = (ucast b0 * 256 + ucast b1) * 256 + ucast b2
      in [enc1 c, enc2 c, enc3 c, enc4 c] @ b64_encode bs)"

text \<open>\<^verbatim>\<open>ToBase64Buf\<close>: the status and the string written (the size of the caller's
  buffer is never looked at). The byte stream is one sign byte and the big-endian
  magnitude.\<close>

definition ToBase64Buf :: "vlong \<Rightarrow> status \<times> string" where
  "ToBase64Buf this =
     (let nNeedsBin = (GetNumBits this + 7) div 8 + 1;
          b0 = (if s this = MP_ZPOS then 0 else 1 :: 8 word);
          (ret, bytes) = ToBinary this (nNeedsBin - 1)
      in if ret \<noteq> VLONG_SUCCESS then (ret, [])
         else (VLONG_SUCCESS, b64_encode (b0 # bytes)))"

text \<open>
  The decoding loop of \<^verbatim>\<open>FromBase64\<close> over groups of four characters. It writes into
  the scratch buffer \<open>tmp\<close> at offset \<open>q\<close>; a byte it does not write keeps what the
  buffer held. The result is the status, the buffer, the offset after the last group
  and the last group's \<open>n[2]\<close> and \<open>n[3]\<close>.
\<close>

fun b64_decode :: "string \<Rightarrow> (nat \<Rightarrow> 8 word) \<Rightarrow> nat \<Rightarrow> int \<Rightarrow> int
    \<Rightarrow> status \<times> (nat \<Rightarrow> 8 word) \<times> nat \<times> int \<times> int" where
  "b64_decode (c0 # c1 # c2 # c3 # cs) tmp q m2 m3 =
     (let n0 = POS c0; n1 = POS c1; n2 = POS c2; n3 = POS c3 in
      if n0 = - 1 \<or> n1 = - 1 then (VLONG_ERR_INVALID_CHAR, tmp, q, n2, n3)
      else if n2 = - 1 \<and> n3 \<noteq> - 1 then (VLONG_ERR_INVALID_CHAR, tmp, q, n2, n3)
      else
        let tmp1 = tmp(q := of_int (n0 * 4 + n1 div 16));
            tmp2 = (if n2 \<noteq> - 1 then tmp1(q + 1 := of_int ((n1 mod 16) * 16 + n2 div 4)) else tmp1);
            tmp3 = (if n3 \<noteq> - 1 then tmp2(q + 2 := of_int ((n2 mod 4) * 64 + n3)) else tmp2)
        in b64_decode cs tmp3 (q + 3) n2 n3)"
| "b64_decode cs tmp q m2 m3 = (VLONG_SUCCESS, tmp, q, m2, m3)"

text \<open>
  \<^verbatim>\<open>FromBase64(szNumber)\<close>. \<open>junk\<close> is the content of the scratch buffer
  \<^verbatim>\<open>tmp\<close> before the call (left over or uninitialised). \<^verbatim>\<open>FromBinary\<close> writes the
  decoded magnitude over the receiver's current digits.
\<close>

definition FromBase64 :: "vlong \<Rightarrow> (nat \<Rightarrow> 8 word) \<Rightarrow> string option \<Rightarrow> status \<times> vlong" where
  "FromBase64 this junk szNumber =
     (case szNumber of
        None \<Rightarrow> (VLONG_ERR_BAD_ARG_1, this)
      | Some str \<Rightarrow>
          if length str = 0 then (VLONG_SUCCESS, SetZero this)
          else if length str mod 4 \<noteq> 0 then (VLONG_ERR_BAD_ARG_1, this)
          else
            let (r0, tmp, q, n2, n3) = b64_decode str junk 0 0 0 in
            if r0 \<noteq> VLONG_SUCCESS then (r0, this)
            else
              let dlen = q - (if n2 = - 1 then 1 else 0) - (if n3 = - 1 then 1 else 0);
                  (r1, t1) = FromBinary this (map (\<lambda>i. tmp (i + 1)) [0..<dlen - 1]) (dlen - 1)
              in if r1 \<noteq> VLONG_SUCCESS then (r1, t1)
                 else (VLONG_SUCCESS, Clamp (t1\<lparr> s := (if tmp 0 = 0 then MP_ZPOS else MP_NEG) \<rparr>)))"

section \<open>Generators\<close>

text \<open>
  \<^verbatim>\<open>GenRandomBytes(bytes, pRNG_f, pRNG_ctx)\<close>. \<open>rng\<close> is the generator that is
  called (the caller's, or the built-in one when \<open>pRNG_f\<close> is \<^verbatim>\<open>NULL\<close>): asked for
  \<open>n\<close> bytes it returns a status and fills the buffer.
\<close>

definition GenRandomBytes :: "vlong \<Rightarrow> nat \<Rightarrow> (nat \<Rightarrow> status \<times> 8 word list) \<Rightarrow> status \<times> vlong" where
  "GenRandomBytes this bytes rng =
     (if bytes < 1 then (VLONG_ERR_BAD_ARG_1, this)
      else
        let (r0, t0) = Grow this (CHARS_TO_DIGITS bytes + 1) in
        if r0 \<noteq> VLONG_SUCCESS then (r0, t0)
        else
          let (r1, buf) = rng bytes in
          if r1 \<noteq> VLONG_SUCCESS then (r1, t0)
          else
            let (r2, t1) = FromBinary t0 (take bytes buf @ replicate (bytes - length buf) 0) bytes
            in (r2, t1\<lparr> nu := CHARS_TO_DIGITS bytes \<rparr>))"

section \<open>Theorems\<close>

subsection \<open>Allocation lemmas\<close>

lemma length_zero_range: "length (zero_range xs f c) = length xs"
  by (auto simp: zero_range_def min_def)

lemma Grow_ok:
  assumes "alloc_ok v" and "n \<le> VLONG_MAX_DIGITS"
  shows "fst (Grow v n) = VLONG_SUCCESS \<and> alloc_ok (snd (Grow v n)) \<and> nu (snd (Grow v n)) = nu v
         \<and> n \<le> na (snd (Grow v n)) \<and> s (snd (Grow v n)) = s v"
  using assms by (auto simp: Grow_def alloc_ok_def length_zero_range)

lemma set_bit_word: "((x AND NOT v) OR v) AND v = (v :: udig_t)"
  by (auto simp: bit_eq_iff bit_and_iff bit_or_iff bit_not_iff)

lemma drop_push_one: "pos < 32 \<Longrightarrow> drop_bit pos (2 ^ pos :: udig_t) = 1"
  by (rule bit_word_eqI) (auto simp: bit_simps)

lemma chars_of_buf: "map (\<lambda>i. if i < length buf then buf ! i else c0) [0..<length buf] = buf"
  by (rule nth_equalityI) auto

subsection \<open>Division by zero\<close>

lemma DivD_zero: "DivD this a 0 = (VLONG_ERR_DIV_BY_ZERO, this, None)"
  by (cases a) (simp_all add: DivD_def prvDivInt_def Let_def arg_def)

lemma ModD_zero: "ModD this a 0 = (VLONG_ERR_DIV_BY_ZERO, this)"
  by (simp add: ModD_def DivD_zero)

lemma DivV_zero:
  assumes "nu (arg this b) = 0"
  shows "DivV this a b r = Some (VLONG_ERR_DIV_BY_ZERO, this, r)"
proof -
  have "nu (mk_store this a b (case r of None \<Rightarrow> Init | Some rv \<Rightarrow> rv) (addr_of b 2)) = 0"
    using assms by (cases b) (simp_all add: mk_store_def addr_of_def arg_def)
  then show ?thesis
    by (cases r) (simp_all add: DivV_def prvDivBig_def Let_def mk_store_def)
qed

lemma ModV_zero: "nu (arg this b) = 0 \<Longrightarrow> ModV this a b = Some (VLONG_SUCCESS, SetZero this)"
  by (simp add: ModV_def)

subsection \<open>A parse that fails at the first character it reads\<close>

lemma FromString_hex_invalid_last:
  assumes ok: "alloc_ok this" and len: "BITS_TO_DIGITS (4 * length buf) + 1 \<le> VLONG_MAX_DIGITS"
    and ne: "buf \<noteq> []" and nm: "last buf \<noteq> CHR ''-''" and inv: "dig_default (last buf) = None"
  shows "\<exists>v. FromString this (Some buf) 16 = Some (VLONG_ERR_INVALID_CHAR, v)
             \<and> nu v = 0 \<and> s v = MP_ZPOS \<and> val v = 0"
proof -
  define t0 where "t0 = this\<lparr> nu := 0, s := MP_ZPOS \<rparr>"
  have ok0: "alloc_ok t0" using ok by (simp add: t0_def alloc_ok_def)
  obtain r t where g: "Grow t0 (BITS_TO_DIGITS (4 * length buf) + 1) = (r, t)"
    by (cases "Grow t0 (BITS_TO_DIGITS (4 * length buf) + 1)")
  from Grow_ok [OF ok0 len] g have r: "r = VLONG_SUCCESS" and t: "nu t = 0" "s t = MP_ZPOS"
    by (auto simp: t0_def)
  from ne have "buf = butlast buf @ [last buf]" by simp
  then have "rev buf = rev (butlast buf @ [last buf])" by simp
  then have rv: "rev buf = last buf # rev (butlast buf)" by simp
  have h: "hex_loop True MP_DIG_CHARS (rev buf) 0 t = (VLONG_ERR_INVALID_CHAR, t)"
    using nm inv by (simp add: rv decode_dig_def)
  have "FromString this (Some buf) 16 = Some (VLONG_ERR_INVALID_CHAR, t)"
    using g r h
    by (simp add: FromString_def FromStringBuf_def Let_def chars_of_buf t0_def [symmetric])
  moreover have "val t = 0" using t by (simp add: val_def)
  ultimately show ?thesis using t by blast
qed

subsection \<open>A negative exponent\<close>

text \<open>Whenever \<open>PowMod\<close> returns at all, it was not called with a negative exponent
  whose base has an inverse: in that case its body is the same call again.\<close>

lemma PowMod_neg_exp_no_result:
  assumes "PowMod this a e n = Some y"
  shows "\<not> (s n \<noteq> MP_NEG \<and> s e = MP_NEG \<and> (\<exists>g. InvMod Init a n = Some (VLONG_SUCCESS, g))
            \<and> fst (Copy Init e) = VLONG_SUCCESS)"
proof (rule PowMod.raw_induct [where P = "\<lambda>this a e n y.
     \<not> (s n \<noteq> MP_NEG \<and> s e = MP_NEG \<and> (\<exists>g. InvMod Init a n = Some (VLONG_SUCCESS, g))
            \<and> fst (Copy Init e) = VLONG_SUCCESS)", OF _ assms])
  fix PowMod' :: "vlong \<Rightarrow> vlong \<Rightarrow> vlong \<Rightarrow> vlong \<Rightarrow> (status \<times> vlong) option"
    and this' a' e' n' y'
  assume IH: "\<And>this a e n y. PowMod' this a e n = Some y \<Longrightarrow>
     \<not> (s n \<noteq> MP_NEG \<and> s e = MP_NEG \<and> (\<exists>g. InvMod Init a n = Some (VLONG_SUCCESS, g))
            \<and> fst (Copy Init e) = VLONG_SUCCESS)"
  assume body: "(if s n' = MP_NEG then Some (VLONG_ERR_NEGATIVE_ARG, this')
      else if s e' = MP_NEG then
        (case InvMod Init a' n' of
           None \<Rightarrow> None
         | Some (r1, tmpG) \<Rightarrow>
             if r1 \<noteq> VLONG_SUCCESS then Some (r1, this')
             else
               let (r2, tmpX) = Copy Init e' in
               if r2 \<noteq> VLONG_SUCCESS then Some (r2, this')
               else PowMod' this' a' e' n')
      else if prvIsDrModulus n' then prvPowModBarrett this' a' e' n' 1
      else if low_bit a' = 1 then prvPowModMontgomery this' a' e' n'
      else prvPowModBarrett this' a' e' n' 0) = Some y'"
  show "\<not> (s n' \<noteq> MP_NEG \<and> s e' = MP_NEG \<and> (\<exists>g. InvMod Init a' n' = Some (VLONG_SUCCESS, g))
            \<and> fst (Copy Init e') = VLONG_SUCCESS)"
  proof
    assume c: "s n' \<noteq> MP_NEG \<and> s e' = MP_NEG \<and> (\<exists>g. InvMod Init a' n' = Some (VLONG_SUCCESS, g))
            \<and> fst (Copy Init e') = VLONG_SUCCESS"
    then obtain g where g: "InvMod Init a' n' = Some (VLONG_SUCCESS, g)" by blast
    from c g body have "PowMod' this' a' e' n' = Some y'"
      by (simp split: prod.splits)
    from IH [OF this] c show False by blast
  qed
qed

lemma PowMod_neg_exp_diverges:
  assumes "s n \<noteq> MP_NEG" and "s e = MP_NEG" and "InvMod Init a n = Some (VLONG_SUCCESS, g)"
    and "fst (Copy Init e) = VLONG_SUCCESS"
  shows "PowMod this a e n = None"
proof (cases "PowMod this a e n")
  case None then show ?thesis .
next
  case (Some y)
  from PowMod_neg_exp_no_result [OF Some] assms show ?thesis by blast
qed

lemma InvMod_3_7:
  "InvMod Init \<lparr> s = 1, d = [3], na = 1, nu = 1 \<rparr> \<lparr> s = 1, d = [7], na = 1, nu = 1 \<rparr>
     = Some (VLONG_SUCCESS, \<lparr> s = 1, d = [5, 0], na = 2, nu = 1 \<rparr>)"
  by code_simp

subsection \<open>The code at concrete inputs\<close>

lemma PowMod_odd_base_even_modulus:
  "PowMod Init \<lparr> s = 1, d = [3], na = 1, nu = 1 \<rparr> \<lparr> s = 1, d = [1], na = 1, nu = 1 \<rparr> \<lparr> s = 1, d = [0, 1], na = 2, nu = 2 \<rparr> = Some (VLONG_ERR_BAD_ARG_1, Init)"
  by code_simp

lemma PowMod_even_base_even_modulus:
  "PowMod Init \<lparr> s = 1, d = [2], na = 1, nu = 1 \<rparr> \<lparr> s = 1, d = [1], na = 1, nu = 1 \<rparr> \<lparr> s = 1, d = [0, 1], na = 2, nu = 2 \<rparr> = Some (VLONG_SUCCESS, \<lparr> s = 1, d = [2], na = 1, nu = 1 \<rparr>)"
  by code_simp

lemma PowMod_3_2_9:
  "PowMod Init \<lparr> s = 1, d = [3], na = 1, nu = 1 \<rparr> \<lparr> s = 1, d = [2], na = 1, nu = 1 \<rparr> \<lparr> s = 1, d = [9], na = 1, nu = 1 \<rparr> = Some (VLONG_SUCCESS, \<lparr> s = 1, d = [9, 0], na = 2, nu = 1 \<rparr>)"
  by code_simp

lemma DivD_0_7:
  "DivD Init (Obj Init) 7 = (VLONG_SUCCESS, Init, Some 7)"
  by code_simp

lemma ModD_0_7:
  "ModD Init (Obj Init) 7 = (VLONG_SUCCESS, \<lparr> s = 1, d = [7], na = 1, nu = 1 \<rparr>)"
  by code_simp

lemma DivD_10_neg3:
  "DivD Init (Obj \<lparr> s = 1, d = [10], na = 1, nu = 1 \<rparr>) (- 3) = (VLONG_SUCCESS, \<lparr> s = 1, d = [0], na = 1, nu = 0 \<rparr>, Some 10)"
  by code_simp

lemma DivV_7_7:
  "DivV Init (Obj \<lparr> s = 1, d = [7], na = 1, nu = 1 \<rparr>) (Obj \<lparr> s = 1, d = [7], na = 1, nu = 1 \<rparr>) (Some Init) = Some (VLONG_SUCCESS, \<lparr> s = 1, d = [7], na = 1, nu = 1 \<rparr>, Some Init)"
  by code_simp

lemma ModBarrett_3_3:
  "ModBarrett Init (Obj \<lparr> s = 1, d = [3], na = 1, nu = 1 \<rparr>) \<lparr> s = 1, d = [3], na = 1, nu = 1 \<rparr> = Some (VLONG_SUCCESS, \<lparr> s = 1, d = [3], na = 1, nu = 1 \<rparr>)"
  by code_simp

lemma ModMontgomery_7_7:
  "ModMontgomery Init (Obj \<lparr> s = 1, d = [7], na = 1, nu = 1 \<rparr>) \<lparr> s = 1, d = [7], na = 1, nu = 1 \<rparr> = Some (VLONG_SUCCESS, \<lparr> s = 1, d = [7, 0, 0], na = 3, nu = 1 \<rparr>)"
  by code_simp

lemma ModMontgomery_1_7:
  "ModMontgomery Init (Obj \<lparr> s = 1, d = [1], na = 1, nu = 1 \<rparr>) \<lparr> s = 1, d = [7], na = 1, nu = 1 \<rparr> = Some (VLONG_SUCCESS, \<lparr> s = 1, d = [2, 0, 0], na = 3, nu = 1 \<rparr>)"
  by code_simp

lemma ModDRExt_6_3:
  "ModDRExt Init (Obj \<lparr> s = 1, d = [6], na = 1, nu = 1 \<rparr>) \<lparr> s = 1, d = [3], na = 1, nu = 1 \<rparr> = Some (VLONG_SUCCESS, \<lparr> s = 1, d = [3, 0], na = 2, nu = 1 \<rparr>)"
  by code_simp

lemma ModV_6_3:
  "ModV Init (Obj \<lparr> s = 1, d = [6], na = 1, nu = 1 \<rparr>) (Obj \<lparr> s = 1, d = [3], na = 1, nu = 1 \<rparr>) = Some (VLONG_SUCCESS, \<lparr> s = 1, d = [0], na = 1, nu = 0 \<rparr>)"
  by code_simp

lemma GenRandomBytes_zero_bytes:
  "GenRandomBytes Init 4 (\<lambda>n. (VLONG_SUCCESS, replicate n 0)) = (VLONG_SUCCESS, \<lparr> s = 1, d = [0, 0, 0, 0, 0], na = 5, nu = 1 \<rparr>)"
  by code_simp

lemma ToBase64Buf_5:
  "ToBase64Buf \<lparr> s = 1, d = [5], na = 1, nu = 1 \<rparr> = (VLONG_SUCCESS, ''AAU='')"
  by code_simp

lemma ToBase64Buf_0:
  "ToBase64Buf Init = (VLONG_SUCCESS, ''AA=='')"
  by code_simp

lemma FromBase64_5_into_2p40:
  "FromBase64 \<lparr> s = 1, d = [0, 256], na = 2, nu = 2 \<rparr> (\<lambda>_. 0) (Some ''AAU='') = (VLONG_SUCCESS, \<lparr> s = 1, d = [5, 256], na = 2, nu = 2 \<rparr>)"
  by code_simp

lemma FromBase64_0_into_7:
  "FromBase64 \<lparr> s = 1, d = [7], na = 1, nu = 1 \<rparr> (\<lambda>_. 0) (Some ''AA=='') = (VLONG_SUCCESS, \<lparr> s = 1, d = [7], na = 1, nu = 1 \<rparr>)"
  by code_simp

lemma FromBase64_5_into_fresh:
  "FromBase64 Init (\<lambda>_. 0) (Some ''AAU='') = (VLONG_SUCCESS, \<lparr> s = 1, d = [5, 0], na = 2, nu = 1 \<rparr>)"
  by code_simp

lemma DR_shape_of_small_moduli:
  "prvIsDrModulus \<lparr> s = 1, d = [3], na = 1, nu = 1 \<rparr> \<and> prvIsDrModulus \<lparr> s = 1, d = [9], na = 1, nu = 1 \<rparr>"
  by code_simp

lemma two_pow_32_not_DR_shaped:
  "\<not> prvIsDrModulus \<lparr> s = 1, d = [0, 1], na = 2, nu = 2 \<rparr>"
  by code_simp

lemma val_2p40_5: "val \<lparr> s = 1, d = [5, 256], na = 2, nu = 2 \<rparr> = 2 ^ 40 + 5"
  by (simp add: val_def)

subsection \<open>Claims\<close>

text \<open>
  C10. For every strictly positive vlong \<open>a\<close> (used digits, sign +) and every signed
  digit \<open>v \<le> 0\<close>, \<open>Compare a v\<close> returns -1 (\<open>MP_LT\<close>): the second sign test
  answers before any magnitude is looked at. The scalar operators inherit it:
  \<open>a > v\<close>, \<open>a >= v\<close> and \<open>a == v\<close> are false, \<open>a != v\<close>, \<open>a < v\<close> and \<open>a <= v\<close>
  are true.
\<close>

theorem C10_compare_nonpositive_digit:
  assumes "nu a \<noteq> 0" and "s a = MP_ZPOS" and "v \<le>s 0"
  shows "Compare a v = - 1 \<and> \<not> op_gt a v \<and> \<not> op_ge a v \<and> \<not> op_eq a v
         \<and> op_ne a v \<and> op_lt a v \<and> op_le a v"
  using assms
  by (simp add: Compare_def isZero_def MP_LT_def MP_ZPOS_def MP_NEG_def
      op_gt_def op_ge_def op_eq_def op_ne_def op_lt_def op_le_def)

theorem C10_witness:
  "nu \<lparr> s = 1, d = [5], na = 1, nu = 1 \<rparr> \<noteq> 0
   \<and> s \<lparr> s = 1, d = [5], na = 1, nu = 1 \<rparr> = MP_ZPOS
   \<and> (0 :: sdig_t) \<le>s 0
   \<and> Compare \<lparr> s = 1, d = [5], na = 1, nu = 1 \<rparr> 0 = - 1
   \<and> \<not> op_gt \<lparr> s = 1, d = [5], na = 1, nu = 1 \<rparr> 0"
  using C10_compare_nonpositive_digit [of "\<lparr> s = 1, d = [5], na = 1, nu = 1 \<rparr>" 0]
  by (simp add: MP_ZPOS_def)

text \<open>
  C9, as stated, fails: reading a bit at or beyond the stored magnitude does not
  return 0, it returns the value of \<open>VLONG_ERR_OUT_OF_RANGE\<close> (25), for the fresh
  vlong at bit 0 and for the vlong 5 at bit 32; and \<open>SetBit(num, 1)\<close> cannot grow past
  \<open>VLONG_MAX_DIGITS\<close> digits.
\<close>

theorem C9_counterexample:
  "0 div BiD \<ge> nu Init \<and> GetBit Init 0 = 25 \<and> GetBit Init 0 \<noteq> 0
   \<and> fst (SetBit Init 32768 1) = VLONG_ERR_MEMORY_EXEED
   \<and> 32 div BiD \<ge> nu \<lparr> s = 1, d = [5], na = 1, nu = 1 \<rparr>
   \<and> GetBit \<lparr> s = 1, d = [5], na = 1, nu = 1 \<rparr> 32 = 25"
  by (simp add: GetBit_def SetBit_def Init_def BiD_def Grow_def VLONG_MAX_DIGITS_def)

text \<open>
  C9, amended. For every vlong and every bit index \<open>num\<close> with
  \<open>num / BITS \<ge> used\<close>, \<open>GetBit\<close> returns the out-of-range code 25. For every
  well-allocated vlong and every \<open>num\<close> whose digit index is below
  \<open>VLONG_MAX_DIGITS\<close>, \<open>SetBit(num, 1)\<close> succeeds, the number then has
  \<open>max used (num / BITS + 1)\<close> used digits, and \<open>GetBit(num)\<close> reads 1. For every
  well-allocated vlong with at most \<open>VLONG_MAX_DIGITS\<close> allocated digits (more are never
  allocated by \<open>Grow\<close>) and every \<open>num\<close> whose digit index is
  \<open>VLONG_MAX_DIGITS\<close> or more, \<open>SetBit(num, 1)\<close> fails with \<open>MEMORY_EXEED\<close> and
  leaves the vlong as it was.
\<close>

theorem C9_getbit_setbit:
  "(num div BiD \<ge> nu v \<longrightarrow> GetBit v num = status_code VLONG_ERR_OUT_OF_RANGE \<and> GetBit v num = 25)
   \<and> (alloc_ok v \<and> num div BiD < VLONG_MAX_DIGITS \<longrightarrow>
        fst (SetBit v num 1) = VLONG_SUCCESS
        \<and> GetBit (snd (SetBit v num 1)) num = 1
        \<and> nu (snd (SetBit v num 1)) = max (nu v) (num div BiD + 1)
        \<and> alloc_ok (snd (SetBit v num 1)))
   \<and> (alloc_ok v \<and> na v \<le> VLONG_MAX_DIGITS \<and> VLONG_MAX_DIGITS \<le> num div BiD \<longrightarrow>
        SetBit v num 1 = (VLONG_ERR_MEMORY_EXEED, v))"
proof (intro conjI impI)
  assume "num div BiD \<ge> nu v"
  then show "GetBit v num = status_code VLONG_ERR_OUT_OF_RANGE" "GetBit v num = 25"
    by (simp_all add: GetBit_def)
next
  assume a: "alloc_ok v \<and> num div BiD < VLONG_MAX_DIGITS"
  have pos: "num mod BiD < 32" by (simp add: BiD_def)
  show "fst (SetBit v num 1) = VLONG_SUCCESS"
    using a Grow_ok [of v "num div BiD + 1"]
    by (auto simp: SetBit_def Let_def split: prod.splits)
  show "nu (snd (SetBit v num 1)) = max (nu v) (num div BiD + 1)"
    using a Grow_ok [of v "num div BiD + 1"]
    by (auto simp: SetBit_def Let_def split: prod.splits)
  show "alloc_ok (snd (SetBit v num 1))"
    using a Grow_ok [of v "num div BiD + 1"]
    by (auto simp: SetBit_def Let_def alloc_ok_def split: prod.splits)
  show "GetBit (snd (SetBit v num 1)) num = 1"
  proof (cases "num div BiD \<ge> nu v")
    case True
    obtain r t where g: "Grow v (num div BiD + 1) = (r, t)"
      by (cases "Grow v (num div BiD + 1)")
    from a Grow_ok [of v "num div BiD + 1"] g
    have r: "r = VLONG_SUCCESS" and t: "alloc_ok t" "num div BiD + 1 \<le> na t" by auto
    then have len: "num div BiD < length (d t)" by (simp add: alloc_ok_def)
    show ?thesis using True g r len pos
      by (simp add: SetBit_def GetBit_def Let_def dg_def set_bit_word drop_push_one)
  next
    case False
    then have len: "num div BiD < length (d v)" using a by (simp add: alloc_ok_def)
    show ?thesis using False len pos
      by (simp add: SetBit_def GetBit_def Let_def dg_def set_bit_word drop_push_one)
  qed
next
  assume b: "alloc_ok v \<and> na v \<le> VLONG_MAX_DIGITS \<and> VLONG_MAX_DIGITS \<le> num div BiD"
  then have "nu v \<le> num div BiD" "\<not> num div BiD + 1 \<le> na v" "VLONG_MAX_DIGITS < num div BiD + 1"
    by (auto simp: alloc_ok_def)
  then show "SetBit v num 1 = (VLONG_ERR_MEMORY_EXEED, v)"
    by (simp add: SetBit_def Let_def Grow_def)
qed

theorem C9_witness:
  "77 div BiD \<ge> nu \<lparr> s = 1, d = [5], na = 1, nu = 1 \<rparr>
   \<and> GetBit \<lparr> s = 1, d = [5], na = 1, nu = 1 \<rparr> 77 = 25
   \<and> alloc_ok \<lparr> s = 1, d = [5], na = 1, nu = 1 \<rparr> \<and> 77 div BiD < VLONG_MAX_DIGITS
   \<and> fst (SetBit \<lparr> s = 1, d = [5], na = 1, nu = 1 \<rparr> 77 1) = VLONG_SUCCESS
   \<and> GetBit (snd (SetBit \<lparr> s = 1, d = [5], na = 1, nu = 1 \<rparr> 77 1)) 77 = 1
   \<and> nu (snd (SetBit \<lparr> s = 1, d = [5], na = 1, nu = 1 \<rparr> 77 1)) = 3
   \<and> na \<lparr> s = 1, d = [5], na = 1, nu = 1 \<rparr> \<le> VLONG_MAX_DIGITS
   \<and> VLONG_MAX_DIGITS \<le> 32768 div BiD
   \<and> SetBit \<lparr> s = 1, d = [5], na = 1, nu = 1 \<rparr> 32768 1
        = (VLONG_ERR_MEMORY_EXEED, \<lparr> s = 1, d = [5], na = 1, nu = 1 \<rparr>)"
  using C9_getbit_setbit [where num = 77 and v = "\<lparr> s = 1, d = [5], na = 1, nu = 1 \<rparr>"]
    C9_getbit_setbit [where num = 32768 and v = "\<lparr> s = 1, d = [5], na = 1, nu = 1 \<rparr>"]
  by (simp add: alloc_ok_def BiD_def VLONG_MAX_DIGITS_def)

text \<open>
  C4 (the clamp invariant after every public operation) fails in \<open>Xor\<close> and in
  \<open>GenRandomBytes\<close>, which never clamp. For two distinct objects that both hold 5 and
  a fresh receiver, \<open>Xor\<close> returns success and leaves one used digit that is zero:
  the value is 0 but \<open>isZero\<close> is false. \<open>GenRandomBytes\<close> with a generator that
  delivers four zero bytes does the same.
\<close>

theorem C4_xor_leaves_zero_top_digit:
  "(let st = (\<lambda>_. Init)(1 := \<lparr> s = 1, d = [5], na = 1, nu = 1 \<rparr>,
                          2 := \<lparr> s = 1, d = [5], na = 1, nu = 1 \<rparr>);
        res = Xor st 0 1 2;
        rnd = GenRandomBytes Init 4 (\<lambda>n. (VLONG_SUCCESS, replicate n 0))
    in clamped (st 1) \<and> clamped (st 2) \<and> clamped (st 0) \<and> fst res = VLONG_SUCCESS
       \<and> snd res 0 = \<lparr> s = 1, d = [0], na = 1, nu = 1 \<rparr> \<and> \<not> clamped (snd res 0)
       \<and> val (snd res 0) = 0 \<and> \<not> isZero (snd res 0)
       \<and> rnd = (VLONG_SUCCESS, \<lparr> s = 1, d = [0, 0, 0, 0, 0], na = 5, nu = 1 \<rparr>)
       \<and> \<not> clamped (snd rnd))"
  unfolding Let_def GenRandomBytes_zero_bytes
  by (simp add: Xor_def Let_def Init_def clamped_def Copy_def Grow_def
      dg_def copy_digits_def VLONG_MAX_DIGITS_def MP_ZPOS_def val_def isZero_def)

text \<open>
  C1 fails on the code. \<open>PowMod\<close> picks Montgomery from the low bit of the base
  \<open>a\<close>, not of the modulus (its comment says "if the modulus is odd"): with the even
  modulus \<open>2^32\<close>, which is not DR-shaped, the odd base 3 and the exponent 1 are refused
  with \<open>BAD_ARG_1\<close> (the Montgomery setup wants an odd modulus) while the even base 2
  is accepted. And a result that is a multiple of the modulus comes back as the modulus
  itself: \<open>3^2 mod 9\<close> is returned as 9.
\<close>

theorem C1_powmod_engine_and_result:
  "\<not> prvIsDrModulus \<lparr> s = 1, d = [0, 1], na = 2, nu = 2 \<rparr>
   \<and> PowMod Init \<lparr> s = 1, d = [3], na = 1, nu = 1 \<rparr> \<lparr> s = 1, d = [1], na = 1, nu = 1 \<rparr> \<lparr> s = 1, d = [0, 1], na = 2, nu = 2 \<rparr> = Some (VLONG_ERR_BAD_ARG_1, Init)
   \<and> PowMod Init \<lparr> s = 1, d = [2], na = 1, nu = 1 \<rparr> \<lparr> s = 1, d = [1], na = 1, nu = 1 \<rparr> \<lparr> s = 1, d = [0, 1], na = 2, nu = 2 \<rparr> = Some (VLONG_SUCCESS, \<lparr> s = 1, d = [2], na = 1, nu = 1 \<rparr>)
   \<and> PowMod Init \<lparr> s = 1, d = [3], na = 1, nu = 1 \<rparr> \<lparr> s = 1, d = [2], na = 1, nu = 1 \<rparr> \<lparr> s = 1, d = [9], na = 1, nu = 1 \<rparr> = Some (VLONG_SUCCESS, \<lparr> s = 1, d = [9, 0], na = 2, nu = 1 \<rparr>)"
  by (intro conjI two_pow_32_not_DR_shaped PowMod_odd_base_even_modulus
      PowMod_even_base_even_modulus PowMod_3_2_9)

text \<open>
  C2 fails on the code. The short division of the dividend 0 by 7 reports the remainder
  7 (\<^verbatim>\<open>prvDivInt\<close> stores the divisor there), and so does \<open>Mod\<close>. The short
  division of 10 by -3 divides by the unsigned reading of -3 and reports quotient 0
  and remainder 10. The long division of 7 by 7 reports the quotient 7 (the dividend is
  copied into it) with remainder 0.
\<close>

theorem C2_division_results:
  "DivD Init (Obj Init) 7 = (VLONG_SUCCESS, Init, Some 7)
   \<and> ModD Init (Obj Init) 7 = (VLONG_SUCCESS, \<lparr> s = 1, d = [7], na = 1, nu = 1 \<rparr>)
   \<and> DivD Init (Obj \<lparr> s = 1, d = [10], na = 1, nu = 1 \<rparr>) (- 3) = (VLONG_SUCCESS, \<lparr> s = 1, d = [0], na = 1, nu = 0 \<rparr>, Some 10)
   \<and> DivV Init (Obj \<lparr> s = 1, d = [7], na = 1, nu = 1 \<rparr>) (Obj \<lparr> s = 1, d = [7], na = 1, nu = 1 \<rparr>) (Some Init) = Some (VLONG_SUCCESS, \<lparr> s = 1, d = [7], na = 1, nu = 1 \<rparr>, Some Init)"
  by (intro conjI DivD_0_7 ModD_0_7 DivD_10_neg3 DivV_7_7)

text \<open>
  C3 fails on the code. Each reduction ends with a subtraction of the modulus that is
  guarded by "greater than" where "not less than" is meant (the comment in
  \<^verbatim>\<open>prvReduceMontgomery\<close> reads "if x >= n then x = x - n"), so a multiple of the
  modulus is reduced to the modulus, not to 0: \<open>ModBarrett(3, 3) = 3\<close>,
  \<open>ModMontgomery(7, 7) = 7\<close>, \<open>ModDRExt(6, 3) = 3\<close> (3 is DR-shaped), while
  \<open>Mod(6, 3) = 0\<close>. \<open>ModMontgomery\<close> moreover returns \<open>x / R mod n\<close> for
  \<open>R = 2^32\<close>, not \<open>x mod n\<close>: \<open>ModMontgomery(1, 7) = 2\<close>.
\<close>

theorem C3_reductions_of_multiples:
  "prvIsDrModulus \<lparr> s = 1, d = [3], na = 1, nu = 1 \<rparr>
   \<and> ModBarrett Init (Obj \<lparr> s = 1, d = [3], na = 1, nu = 1 \<rparr>) \<lparr> s = 1, d = [3], na = 1, nu = 1 \<rparr> = Some (VLONG_SUCCESS, \<lparr> s = 1, d = [3], na = 1, nu = 1 \<rparr>)
   \<and> ModMontgomery Init (Obj \<lparr> s = 1, d = [7], na = 1, nu = 1 \<rparr>) \<lparr> s = 1, d = [7], na = 1, nu = 1 \<rparr> = Some (VLONG_SUCCESS, \<lparr> s = 1, d = [7, 0, 0], na = 3, nu = 1 \<rparr>)
   \<and> ModMontgomery Init (Obj \<lparr> s = 1, d = [1], na = 1, nu = 1 \<rparr>) \<lparr> s = 1, d = [7], na = 1, nu = 1 \<rparr> = Some (VLONG_SUCCESS, \<lparr> s = 1, d = [2, 0, 0], na = 3, nu = 1 \<rparr>)
   \<and> ModDRExt Init (Obj \<lparr> s = 1, d = [6], na = 1, nu = 1 \<rparr>) \<lparr> s = 1, d = [3], na = 1, nu = 1 \<rparr> = Some (VLONG_SUCCESS, \<lparr> s = 1, d = [3, 0], na = 2, nu = 1 \<rparr>)
   \<and> ModV Init (Obj \<lparr> s = 1, d = [6], na = 1, nu = 1 \<rparr>) (Obj \<lparr> s = 1, d = [3], na = 1, nu = 1 \<rparr>) = Some (VLONG_SUCCESS, \<lparr> s = 1, d = [0], na = 1, nu = 0 \<rparr>)"
  by (intro conjI conjunct1 [OF DR_shape_of_small_moduli] ModBarrett_3_3 ModMontgomery_7_7
      ModMontgomery_1_7 ModDRExt_6_3 ModV_6_3)

text \<open>
  C5, as stated, fails: the long \<open>Mod\<close> with a zero divisor does not fail, it sets
  the receiver to zero and returns success.
\<close>

theorem C5_counterexample:
  "nu Init = 0
   \<and> ModV \<lparr> s = 1, d = [5], na = 1, nu = 1 \<rparr> (Obj \<lparr> s = 1, d = [7], na = 1, nu = 1 \<rparr>) (Obj Init)
       = Some (VLONG_SUCCESS, \<lparr> s = 1, d = [0], na = 1, nu = 0 \<rparr>)
   \<and> VLONG_SUCCESS \<noteq> VLONG_ERR_DIV_BY_ZERO"
  by (simp add: ModV_def Init_def arg_def SetZero_def zero_range_def)

text \<open>
  C5, amended. For every dividend, the short \<open>Div\<close> and \<open>Mod\<close> by the digit 0 and
  the long \<open>Div\<close> by a zero vlong fail with \<open>DIV_BY_ZERO\<close> and leave the receiver
  (and the remainder object) as they were; the long \<open>Mod\<close> by a zero vlong sets the
  receiver to zero and returns success, and \<open>ModDig\<close> by 0 returns 0.
\<close>

theorem C5_division_by_zero:
  "DivD this a 0 = (VLONG_ERR_DIV_BY_ZERO, this, None)
   \<and> ModD this a 0 = (VLONG_ERR_DIV_BY_ZERO, this)
   \<and> fst (DivD this a 0) = VLONG_ERR_DIV_BY_ZERO
   \<and> fst (ModD this a 0) = VLONG_ERR_DIV_BY_ZERO
   \<and> (nu (arg this b) = 0 \<longrightarrow>
        DivV this a b r = Some (VLONG_ERR_DIV_BY_ZERO, this, r)
        \<and> map_option fst (DivV this a b r) = Some VLONG_ERR_DIV_BY_ZERO
        \<and> ModV this a b = Some (VLONG_SUCCESS, SetZero this)
        \<and> ModDig (arg this a) 0 = 0)"
  by (simp add: DivD_zero ModD_zero DivV_zero ModV_zero ModDig_def)

theorem C5_witness:
  "nu (arg \<lparr> s = 1, d = [5], na = 1, nu = 1 \<rparr> (Obj Init)) = 0
   \<and> DivD \<lparr> s = 1, d = [5], na = 1, nu = 1 \<rparr> This 0
       = (VLONG_ERR_DIV_BY_ZERO, \<lparr> s = 1, d = [5], na = 1, nu = 1 \<rparr>, None)
   \<and> ModD \<lparr> s = 1, d = [5], na = 1, nu = 1 \<rparr> This 0
       = (VLONG_ERR_DIV_BY_ZERO, \<lparr> s = 1, d = [5], na = 1, nu = 1 \<rparr>)
   \<and> fst (DivD \<lparr> s = 1, d = [5], na = 1, nu = 1 \<rparr> This 0) = VLONG_ERR_DIV_BY_ZERO
   \<and> DivV \<lparr> s = 1, d = [5], na = 1, nu = 1 \<rparr> This (Obj Init) None
       = Some (VLONG_ERR_DIV_BY_ZERO, \<lparr> s = 1, d = [5], na = 1, nu = 1 \<rparr>, None)
   \<and> map_option fst (DivV \<lparr> s = 1, d = [5], na = 1, nu = 1 \<rparr> This (Obj Init) None)
       = Some VLONG_ERR_DIV_BY_ZERO
   \<and> ModV \<lparr> s = 1, d = [5], na = 1, nu = 1 \<rparr> This (Obj Init)
       = Some (VLONG_SUCCESS, \<lparr> s = 1, d = [0], na = 1, nu = 0 \<rparr>)"
  using C5_division_by_zero [where this = "\<lparr> s = 1, d = [5], na = 1, nu = 1 \<rparr>" and a = This
      and b = "Obj Init" and r = None]
  by (simp add: arg_def Init_def SetZero_def zero_range_def)

text \<open>
  C6 fails on the code. For the base 3, the exponent -1 and the modulus 7 the inverse
  exists (\<open>InvMod\<close> finds 5), but \<open>PowMod\<close> then calls itself with the same base,
  exponent and modulus: it never returns.
\<close>

theorem C6_negative_exponent_never_returns:
  "InvMod Init \<lparr> s = 1, d = [3], na = 1, nu = 1 \<rparr> \<lparr> s = 1, d = [7], na = 1, nu = 1 \<rparr>
     = Some (VLONG_SUCCESS, \<lparr> s = 1, d = [5, 0], na = 2, nu = 1 \<rparr>)
   \<and> PowMod Init \<lparr> s = 1, d = [3], na = 1, nu = 1 \<rparr> \<lparr> s = - 1, d = [1], na = 1, nu = 1 \<rparr>
        \<lparr> s = 1, d = [7], na = 1, nu = 1 \<rparr> = None"
proof
  show "InvMod Init \<lparr> s = 1, d = [3], na = 1, nu = 1 \<rparr> \<lparr> s = 1, d = [7], na = 1, nu = 1 \<rparr>
     = Some (VLONG_SUCCESS, \<lparr> s = 1, d = [5, 0], na = 2, nu = 1 \<rparr>)" by (rule InvMod_3_7)
  show "PowMod Init \<lparr> s = 1, d = [3], na = 1, nu = 1 \<rparr> \<lparr> s = - 1, d = [1], na = 1, nu = 1 \<rparr>
        \<lparr> s = 1, d = [7], na = 1, nu = 1 \<rparr> = None"
    by (rule PowMod_neg_exp_diverges [OF _ _ InvMod_3_7])
       (simp_all add: MP_NEG_def Copy_def Grow_def Init_def VLONG_MAX_DIGITS_def)
qed

text \<open>
  C7 fails on the code. \<open>FromBase64\<close> writes the decoded bytes over the digits the
  receiver already has (\<^verbatim>\<open>FromBinary\<close> does not reset it): the encoding \<open>AAU=\<close> of
  5, decoded into a receiver that holds \<open>2^40\<close>, gives \<open>2^40 + 5\<close>; the encoding
  \<open>AA==\<close> of 0, decoded into a receiver that holds 7, leaves 7. Into a fresh receiver
  \<open>AAU=\<close> decodes to 5.
\<close>

theorem C7_base64_into_used_receiver:
  "ToBase64Buf \<lparr> s = 1, d = [5], na = 1, nu = 1 \<rparr> = (VLONG_SUCCESS, ''AAU='')
   \<and> FromBase64 \<lparr> s = 1, d = [0, 256], na = 2, nu = 2 \<rparr> (\<lambda>_. 0) (Some ''AAU='') = (VLONG_SUCCESS, \<lparr> s = 1, d = [5, 256], na = 2, nu = 2 \<rparr>)
   \<and> val \<lparr> s = 1, d = [5, 256], na = 2, nu = 2 \<rparr> = 2 ^ 40 + 5
   \<and> ToBase64Buf Init = (VLONG_SUCCESS, ''AA=='')
   \<and> FromBase64 \<lparr> s = 1, d = [7], na = 1, nu = 1 \<rparr> (\<lambda>_. 0) (Some ''AA=='') = (VLONG_SUCCESS, \<lparr> s = 1, d = [7], na = 1, nu = 1 \<rparr>)
   \<and> FromBase64 Init (\<lambda>_. 0) (Some ''AAU='') = (VLONG_SUCCESS, \<lparr> s = 1, d = [5, 0], na = 2, nu = 1 \<rparr>)"
  by (intro conjI ToBase64Buf_5 FromBase64_5_into_2p40 val_2p40_5 ToBase64Buf_0
      FromBase64_0_into_7 FromBase64_5_into_fresh)

text \<open>
  C8, as stated, fails: a radix-16 parse of \<open>G\<close> into a receiver that holds 5 returns
  \<open>INVALID_CHAR\<close> and leaves the receiver zero.
\<close>

theorem C8_counterexample:
  "val \<lparr> s = 1, d = [5], na = 1, nu = 1 \<rparr> = 5
   \<and> FromString \<lparr> s = 1, d = [5], na = 1, nu = 1 \<rparr> (Some ''G'') 16
       = Some (VLONG_ERR_INVALID_CHAR, \<lparr> s = 1, d = [0, 0], na = 2, nu = 0 \<rparr>)
   \<and> val \<lparr> s = 1, d = [0, 0], na = 2, nu = 0 \<rparr> = 0"
  by (simp add: val_def FromString_def FromStringBuf_def Let_def BITS_TO_DIGITS_def BiD_def
      Grow_def VLONG_MAX_DIGITS_def MP_DIG_CHARS_def decode_dig_def dig_default_def CiD_def
      MP_ZPOS_def)

text \<open>
  C8, amended. The operations that reject their arguments before they write anything
  leave the receiver exactly as it was: \<open>FromString\<close> with a radix outside 2..16,
  \<open>FromStringBuf\<close> with a \<^verbatim>\<open>NULL\<close> buffer, the short \<open>Div\<close> and \<open>Mod\<close> by the
  digit 0, the long \<open>Div\<close> by a zero vlong, \<open>PowMod\<close> with a negative modulus and
  \<open>InvMod\<close> with a negative argument. A parse is not atomic: \<open>FromStringBuf\<close> resets
  the receiver before it reads, so a radix-16 parse whose last character (the first one
  read) is neither a digit nor \<open>-\<close> returns \<open>INVALID_CHAR\<close> with the receiver zero,
  whatever it held before.
\<close>

theorem C8_receiver_after_error:
  "(radix < 2 \<or> radix > 16 \<longrightarrow> FromString this buf radix = Some (VLONG_ERR_BAD_ARG_2, this))
   \<and> FromStringBuf this None len radix al = Some (VLONG_ERR_BAD_ARG_1, this)
   \<and> DivD this a 0 = (VLONG_ERR_DIV_BY_ZERO, this, None)
   \<and> ModD this a 0 = (VLONG_ERR_DIV_BY_ZERO, this)
   \<and> (nu (arg this b) = 0 \<longrightarrow> DivV this a b r = Some (VLONG_ERR_DIV_BY_ZERO, this, r))
   \<and> (s n = MP_NEG \<longrightarrow> PowMod this x e n = Some (VLONG_ERR_NEGATIVE_ARG, this))
   \<and> (s x = MP_NEG \<or> s n = MP_NEG \<longrightarrow> InvMod this x n = Some (VLONG_ERR_NEGATIVE_ARG, this))
   \<and> (alloc_ok this \<and> BITS_TO_DIGITS (4 * length str) + 1 \<le> VLONG_MAX_DIGITS
        \<and> str \<noteq> [] \<and> last str \<noteq> CHR ''-'' \<and> dig_default (last str) = None \<longrightarrow>
        (\<exists>v. FromString this (Some str) 16 = Some (VLONG_ERR_INVALID_CHAR, v)
              \<and> nu v = 0 \<and> s v = MP_ZPOS \<and> val v = 0))"
proof (intro conjI impI)
  assume "radix < 2 \<or> radix > 16"
  then show "FromString this buf radix = Some (VLONG_ERR_BAD_ARG_2, this)"
    by (auto simp: FromString_def)
next
  show "FromStringBuf this None len radix al = Some (VLONG_ERR_BAD_ARG_1, this)"
    by (simp add: FromStringBuf_def)
next
  show "DivD this a 0 = (VLONG_ERR_DIV_BY_ZERO, this, None)" by (rule DivD_zero)
next
  show "ModD this a 0 = (VLONG_ERR_DIV_BY_ZERO, this)" by (rule ModD_zero)
next
  assume "nu (arg this b) = 0"
  then show "DivV this a b r = Some (VLONG_ERR_DIV_BY_ZERO, this, r)" by (rule DivV_zero)
next
  assume "s n = MP_NEG"
  then show "PowMod this x e n = Some (VLONG_ERR_NEGATIVE_ARG, this)"
    by (subst PowMod.simps) simp
next
  assume "s x = MP_NEG \<or> s n = MP_NEG"
  then show "InvMod this x n = Some (VLONG_ERR_NEGATIVE_ARG, this)"
    by (auto simp: InvMod_def)
next
  assume "alloc_ok this \<and> BITS_TO_DIGITS (4 * length str) + 1 \<le> VLONG_MAX_DIGITS
        \<and> str \<noteq> [] \<and> last str \<noteq> CHR ''-'' \<and> dig_default (last str) = None"
  then show "\<exists>v. FromString this (Some str) 16 = Some (VLONG_ERR_INVALID_CHAR, v)
              \<and> nu v = 0 \<and> s v = MP_ZPOS \<and> val v = 0"
    using FromString_hex_invalid_last [of this str] by blast
qed

theorem C8_witness:
  "((17 :: int) < 2 \<or> (17 :: int) > 16)
   \<and> FromString \<lparr> s = 1, d = [5], na = 1, nu = 1 \<rparr> (Some ''7'') 17
       = Some (VLONG_ERR_BAD_ARG_2, \<lparr> s = 1, d = [5], na = 1, nu = 1 \<rparr>)
   \<and> nu (arg \<lparr> s = 1, d = [5], na = 1, nu = 1 \<rparr> (Obj Init)) = 0
   \<and> DivV \<lparr> s = 1, d = [5], na = 1, nu = 1 \<rparr> This (Obj Init) None
       = Some (VLONG_ERR_DIV_BY_ZERO, \<lparr> s = 1, d = [5], na = 1, nu = 1 \<rparr>, None)
   \<and> s \<lparr> s = - 1, d = [7], na = 1, nu = 1 \<rparr> = MP_NEG
   \<and> PowMod \<lparr> s = 1, d = [5], na = 1, nu = 1 \<rparr> Init Init \<lparr> s = - 1, d = [7], na = 1, nu = 1 \<rparr>
       = Some (VLONG_ERR_NEGATIVE_ARG, \<lparr> s = 1, d = [5], na = 1, nu = 1 \<rparr>)
   \<and> InvMod \<lparr> s = 1, d = [5], na = 1, nu = 1 \<rparr> Init \<lparr> s = - 1, d = [7], na = 1, nu = 1 \<rparr>
       = Some (VLONG_ERR_NEGATIVE_ARG, \<lparr> s = 1, d = [5], na = 1, nu = 1 \<rparr>)
   \<and> alloc_ok \<lparr> s = 1, d = [5], na = 1, nu = 1 \<rparr>
   \<and> BITS_TO_DIGITS (4 * length ''G'') + 1 \<le> VLONG_MAX_DIGITS
   \<and> ''G'' \<noteq> [] \<and> last ''G'' \<noteq> CHR ''-'' \<and> dig_default (last ''G'') = None
   \<and> (\<exists>v. FromString \<lparr> s = 1, d = [5], na = 1, nu = 1 \<rparr> (Some ''G'') 16
             = Some (VLONG_ERR_INVALID_CHAR, v) \<and> nu v = 0 \<and> s v = MP_ZPOS \<and> val v = 0)"
proof -
  have h: "alloc_ok \<lparr> s = 1, d = [5], na = 1, nu = 1 \<rparr>
     \<and> BITS_TO_DIGITS (4 * length ''G'') + 1 \<le> VLONG_MAX_DIGITS
     \<and> ''G'' \<noteq> [] \<and> last ''G'' \<noteq> CHR ''-'' \<and> dig_default (last ''G'') = None"
    by (simp add: alloc_ok_def BITS_TO_DIGITS_def BiD_def VLONG_MAX_DIGITS_def dig_default_def)
  have n: "nu (arg \<lparr> s = 1, d = [5], na = 1, nu = 1 \<rparr> (Obj Init)) = 0"
    by (simp add: arg_def Init_def)
  have m: "s \<lparr> s = - 1, d = [7], na = 1, nu = 1 \<rparr> = MP_NEG" by (simp add: MP_NEG_def)
  from C8_receiver_after_error [where this = "\<lparr> s = 1, d = [5], na = 1, nu = 1 \<rparr>"
      and radix = 17 and buf = "Some ''7''" and b = "Obj Init" and a = This and r = None
      and n = "\<lparr> s = - 1, d = [7], na = 1, nu = 1 \<rparr>" and x = Init and e = Init and str = "''G''"]
    h n m
  show ?thesis by simp
qed

end
